theory Spec2Isabelle
  imports Complex_Main
begin

section \<open>Data model: cells, frames, errors\<close>

text \<open>
  The program (\<^verbatim>\<open>notepad.py\<close>) is a script over pandas data frames read from CSV
  files. A cell of a frame is a Python object: the null \<^verbatim>\<open>NaN\<close>, a string, an integer, a
  boolean, or a float with an integer value (\<open>PyFloat n\<close> is the float of the integer \<open>n\<close>,
  below \<open>10\<^sup>1\<^sup>6\<close> in absolute value: what \<^verbatim>\<open>read_csv\<close> gives for the integers of a column
  that also has a missing value). Floats with a fractional part are outside the model.
  A column is a list of cells; the dtype that pandas gives a column is the one that
  \<^verbatim>\<open>read_csv\<close> and the default fill of \<^verbatim>\<open>load_data\<close> give to a column of these cells.
  The hash tables of pandas (\<^verbatim>\<open>unique\<close>, \<^verbatim>\<open>value_counts\<close>, \<^verbatim>\<open>groupby\<close>, \<^verbatim>\<open>isin\<close>, the keys of a
  merge) take cells as equal when they are the same cell; this is their equality on the
  values of one Python type, and the properties below are stated for columns of one type
  (\<open>one_type\<close>). Strings are byte strings (UTF-8); case folding is that of ASCII.
\<close>

datatype cell = PyNaN | PyStr string | PyInt int | PyBool bool | PyFloat int

text \<open>A data frame: its column labels and its rows, each row a list of cells.\<close>

record frame =
  columns :: "string list"
  rows :: "cell list list"

text \<open>
  A frame as \<^verbatim>\<open>read_csv\<close> builds it has a cell for each label in each row. Its labels are
  pairwise distinct when read; stripping the labels can make two of them equal, and then
  \<^verbatim>\<open>df[c]\<close> is no longer a column. The operations below are modelled for frames with
  pairwise distinct labels.
\<close>

definition wf_frame :: "frame \<Rightarrow> bool" where
  "wf_frame df = (distinct (columns df) \<and> list_all (\<lambda>r. length r = length (columns df)) (rows df))"

text \<open>The cells of a column, nulls apart, are of one Python type.\<close>

definition one_type :: "cell list \<Rightarrow> bool" where
  "one_type xs =
     (list_all (\<lambda>c. case c of PyNaN \<Rightarrow> True | PyStr s \<Rightarrow> True | _ \<Rightarrow> False) xs
      \<or> list_all (\<lambda>c. case c of PyNaN \<Rightarrow> True | PyInt i \<Rightarrow> True | _ \<Rightarrow> False) xs
      \<or> list_all (\<lambda>c. case c of PyNaN \<Rightarrow> True | PyBool b \<Rightarrow> True | _ \<Rightarrow> False) xs
      \<or> list_all (\<lambda>c. case c of PyNaN \<Rightarrow> True | PyFloat n \<Rightarrow> True | _ \<Rightarrow> False) xs)"

text \<open>A column of strings and nulls.\<close>

definition str_cells :: "cell list \<Rightarrow> bool" where
  "str_cells xs = list_all (\<lambda>c. case c of PyNaN \<Rightarrow> True | PyStr s \<Rightarrow> True | _ \<Rightarrow> False) xs"

text \<open>
  The exceptions of Python that the script can raise. \<^verbatim>\<open>KeyError\<close> carries the labels
  that were not found, \<^verbatim>\<open>NameError\<close> the variable that is not bound.
\<close>

datatype py_error =
    KeyError "string list"
  | ZeroDivisionError
  | ValueError
  | NameError string
  | AttributeError

text \<open>
  What a block of the script shows: a value (\<^verbatim>\<open>st.metric\<close>, \<^verbatim>\<open>st.dataframe\<close>, a chart)
  or one of the messages of its \<^verbatim>\<open>else\<close> branches (\<^verbatim>\<open>st.error\<close>, \<^verbatim>\<open>st.warning\<close>).
\<close>

datatype notice =
    RequiredColumnsMissing
  | NoSuccessfulClimbs
  | NoNameOrSuccessColumn
  | YearColumnNotFound
  | PeakidOrSuccessNotFound

datatype 'a shown = Metric 'a | Notice notice

section \<open>Python and pandas primitives\<close>

subsection \<open>Strings\<close>

definition lower_char :: "char \<Rightarrow> char" where
  "lower_char c = (let n = (of_char c :: nat) in if 65 \<le> n \<and> n \<le> 90 then char_of (n + 32) else c)"

text \<open>\<^verbatim>\<open>s.lower()\<close>\<close>

definition lower :: "string \<Rightarrow> string" where
  "lower s = map lower_char s"

fun startswith :: "string \<Rightarrow> string \<Rightarrow> bool" where
  "startswith s [] = True"
| "startswith [] (p # ps) = False"
| "startswith (c # cs) (p # ps) = (c = p \<and> startswith cs ps)"

text \<open>\<^verbatim>\<open>sub in s\<close>\<close>

fun py_in :: "string \<Rightarrow> string \<Rightarrow> bool" where
  "py_in sub [] = (sub = [])"
| "py_in sub (c # cs) = (startswith (c # cs) sub \<or> py_in sub cs)"

definition digit_char :: "nat \<Rightarrow> char" where
  "digit_char d = ''0123456789'' ! d"

function dec_nat :: "nat \<Rightarrow> string" where
  "dec_nat n = (if n < 10 then [digit_char n] else dec_nat (n div 10) @ [digit_char (n mod 10)])"
  by pat_completeness auto
termination
  by (relation "measure id") auto

definition dec_int :: "int \<Rightarrow> string" where
  "dec_int i = (if i < 0 then CHR ''-'' # dec_nat (nat (- i)) else dec_nat (nat i))"

text \<open>
  \<^verbatim>\<open>str(x)\<close> for the object in a cell, which is what \<^verbatim>\<open>astype(str)\<close> gives: an integer
  prints its digits, a float with an integer value prints them with \<^verbatim>\<open>.0\<close>.
\<close>

fun py_str :: "cell \<Rightarrow> string" where
  "py_str PyNaN = ''nan''"
| "py_str (PyStr s) = s"
| "py_str (PyInt i) = dec_int i"
| "py_str (PyBool b) = (if b then ''True'' else ''False'')"
| "py_str (PyFloat n) = dec_int n @ ''.0''"

text \<open>The value of a number: \<^verbatim>\<open>True\<close> is 1 and \<^verbatim>\<open>False\<close> is 0.\<close>

fun py_num :: "cell \<Rightarrow> int option" where
  "py_num (PyInt i) = Some i"
| "py_num (PyBool b) = Some (if b then 1 else 0)"
| "py_num (PyFloat n) = Some n"
| "py_num c = None"

text \<open>
  \<^verbatim>\<open>x == y\<close> on the objects of two cells, as the elementwise comparison of a column with
  a scalar computes it: numbers are equal when their values are (\<^verbatim>\<open>True == 1 == 1.0\<close>),
  strings when they are the same string, a number and a string never, and \<^verbatim>\<open>NaN\<close> equals
  nothing, itself included.
\<close>

fun py_eq :: "cell \<Rightarrow> cell \<Rightarrow> bool" where
  "py_eq (PyStr s) (PyStr t) = (s = t)"
| "py_eq PyNaN b = False"
| "py_eq a PyNaN = False"
| "py_eq (PyStr s) b = False"
| "py_eq a (PyStr t) = False"
| "py_eq a b = (py_num a = py_num b)"

subsection \<open>Columns and rows of a frame\<close>

fun index_of :: "string \<Rightarrow> string list \<Rightarrow> nat option" where
  "index_of c [] = None"
| "index_of c (x # xs) = (if x = c then Some 0 else map_option Suc (index_of c xs))"

text \<open>
  \<^verbatim>\<open>df[c]\<close>: the column labelled \<open>c\<close>, or \<^verbatim>\<open>KeyError\<close>. (For a label that occurs twice
  pandas gives a frame of the two columns instead; \<open>wf_frame\<close> excludes it.)
\<close>

definition getitem :: "frame \<Rightarrow> string \<Rightarrow> py_error + cell list" where
  "getitem df c =
     (case index_of c (columns df) of
        None \<Rightarrow> Inl (KeyError [c])
      | Some i \<Rightarrow> Inr (map (\<lambda>r. r ! i) (rows df)))"

text \<open>The cell of a row in the column labelled \<open>c\<close>.\<close>

definition cell_of :: "frame \<Rightarrow> cell list \<Rightarrow> string \<Rightarrow> cell" where
  "cell_of df r c = (case index_of c (columns df) of Some i \<Rightarrow> r ! i | None \<Rightarrow> PyNaN)"

text \<open>\<^verbatim>\<open>df[mask]\<close>: the rows at which the boolean mask holds.\<close>

definition select_rows :: "frame \<Rightarrow> bool list \<Rightarrow> frame" where
  "select_rows df keep = df\<lparr>rows := map fst (filter snd (zip (rows df) keep))\<rparr>"

text \<open>\<^verbatim>\<open>s.dropna()\<close>\<close>

definition dropna :: "cell list \<Rightarrow> cell list" where
  "dropna xs = filter (\<lambda>c. c \<noteq> PyNaN) xs"

text \<open>\<^verbatim>\<open>s.unique()\<close>: the distinct values in the order of their first occurrence.\<close>

definition unique :: "cell list \<Rightarrow> cell list" where
  "unique xs = rev (remdups (rev xs))"

text \<open>\<^verbatim>\<open>s.nunique()\<close>, which leaves \<^verbatim>\<open>NaN\<close> out (\<^verbatim>\<open>dropna=True\<close>).\<close>

definition nunique :: "cell list \<Rightarrow> nat" where
  "nunique xs = length (unique (dropna xs))"

text \<open>
  \<^verbatim>\<open>s.value_counts()\<close>: the distinct non-null values with the number of their
  occurrences, by descending count. Among equal counts the order is that of first
  occurrence (a stable sort); pandas leaves it to the sorting algorithm.
\<close>

definition value_counts :: "cell list \<Rightarrow> (cell \<times> nat) list" where
  "value_counts xs =
     (let ys = dropna xs
      in sort_key (\<lambda>kv. - int (snd kv)) (map (\<lambda>k. (k, count_list ys k)) (unique ys)))"

text \<open>\<^verbatim>\<open>a / b\<close> on Python integers: the true quotient, \<^verbatim>\<open>ZeroDivisionError\<close> for \<open>b = 0\<close>.
  The quotient is the exact one; the rounding of floating point is not modelled.\<close>

definition py_truediv :: "nat \<Rightarrow> nat \<Rightarrow> py_error + real" where
  "py_truediv a b = (if b = 0 then Inl ZeroDivisionError else Inr (real a / real b))"

section \<open>Percentage of peaks climbed\<close>

text \<open>
  \<^verbatim>\<open>peaks_climbed = members["peakid"].dropna().nunique()\<close>,
  \<^verbatim>\<open>total_peaks = peaks["peakid"].nunique()\<close>,
  \<^verbatim>\<open>climbed_pct = (peaks_climbed / total_peaks) * 100\<close>.
\<close>

definition climbed_pct :: "frame \<Rightarrow> frame \<Rightarrow> py_error + real" where
  "climbed_pct members peaks =
     (case getitem members ''peakid'' of
        Inl e \<Rightarrow> Inl e
      | Inr mp \<Rightarrow>
          (let peaks_climbed = nunique (dropna mp) in
           case getitem peaks ''peakid'' of
             Inl e \<Rightarrow> Inl e
           | Inr pp \<Rightarrow>
               (let total_peaks = nunique pp in
                case py_truediv peaks_climbed total_peaks of
                  Inl e \<Rightarrow> Inl e
                | Inr q \<Rightarrow> Inr (q * 100))))"

section \<open>Loading: column labels stripped, defaults filled\<close>

text \<open>The whitespace of ASCII that \<^verbatim>\<open>str.strip()\<close> removes.\<close>

definition py_isspace :: "char \<Rightarrow> bool" where
  "py_isspace c = (let n = (of_char c :: nat) in (9 \<le> n \<and> n \<le> 13) \<or> (28 \<le> n \<and> n \<le> 32))"

definition strip :: "string \<Rightarrow> string" where
  "strip s = rev (dropWhile py_isspace (rev (dropWhile py_isspace s)))"

text \<open>
  Of the whitespace of Unicode that \<^verbatim>\<open>strip\<close> removes only that of ASCII is modelled:
  the labels are taken to be of ASCII.
\<close>

definition ascii_labels :: "frame \<Rightarrow> bool" where
  "ascii_labels df = list_all (list_all (\<lambda>c. (of_char c :: nat) < 128)) (columns df)"

text \<open>\<^verbatim>\<open>df.columns = df.columns.str.strip()\<close>\<close>

definition strip_columns :: "frame \<Rightarrow> frame" where
  "strip_columns df = df\<lparr>columns := map strip (columns df)\<rparr>"

text \<open>
  \<^verbatim>\<open>df.fillna({c: v, ...}, inplace=True)\<close>: in each column that the dictionary names, a
  null cell takes the column's default; labels that the frame does not have are ignored.
\<close>

definition fill_cell :: "(string \<times> cell) list \<Rightarrow> string \<Rightarrow> cell \<Rightarrow> cell" where
  "fill_cell d c v = (if v = PyNaN then (case map_of d c of Some x \<Rightarrow> x | None \<Rightarrow> v) else v)"

definition fillna :: "(string \<times> cell) list \<Rightarrow> frame \<Rightarrow> frame" where
  "fillna d df = df\<lparr>rows := map (\<lambda>r. map (\<lambda>(c, v). fill_cell d c v) (zip (columns df) r)) (rows df)\<rparr>"

text \<open>The five tables of a session.\<close>

record tables =
  exped :: frame
  members :: frame
  peaks :: frame
  refer :: frame
  data_dict :: frame

text \<open>
  \<^verbatim>\<open>load_data\<close>, from the five frames that \<^verbatim>\<open>pd.read_csv\<close> returns (reading the files
  is the part of the loader that is not modelled).
\<close>

definition load_data :: "tables \<Rightarrow> tables" where
  "load_data raw =
     \<lparr>exped = fillna [(''success1'', PyStr ''unknown'')] (strip_columns (exped raw)),
      members = fillna [(''peakid'', PyStr ''UNKNOWN''), (''citizen'', PyStr ''UNKNOWN'')]
                  (strip_columns (members raw)),
      peaks = fillna [(''pkname'', PyStr ''UNKNOWN'')] (strip_columns (peaks raw)),
      refer = strip_columns (refer raw),
      data_dict = strip_columns (data_dict raw)\<rparr>"

section \<open>Filters\<close>

text \<open>\<^verbatim>\<open>filtered_exped = exped[exped["year"] == selected_year]\<close>\<close>

definition filtered_exped :: "frame \<Rightarrow> cell \<Rightarrow> py_error + frame" where
  "filtered_exped ex selected_year =
     (case getitem ex ''year'' of
        Inl e \<Rightarrow> Inl e
      | Inr ys \<Rightarrow> Inr (select_rows ex (map (\<lambda>y. py_eq y selected_year) ys)))"

text \<open>\<^verbatim>\<open>filtered_members = members[members["citizen"] == selected_country]\<close>\<close>

definition filtered_members :: "frame \<Rightarrow> cell \<Rightarrow> py_error + frame" where
  "filtered_members ms selected_country =
     (case getitem ms ''citizen'' of
        Inl e \<Rightarrow> Inl e
      | Inr cs \<Rightarrow> Inr (select_rows ms (map (\<lambda>c. py_eq c selected_country) cs)))"

section \<open>Top 5 most climbed peaks\<close>

text \<open>
  \<^verbatim>\<open>s.value_counts().reset_index()\<close>: the frame of (value, count) rows. Its labels (those
  of pandas 2) are replaced by the next statement of the script.
\<close>

definition reset_index :: "(cell \<times> nat) list \<Rightarrow> frame" where
  "reset_index vc =
     \<lparr>columns = [''peakid'', ''count''], rows = map (\<lambda>kn. [fst kn, PyInt (int (snd kn))]) vc\<rparr>"

text \<open>\<^verbatim>\<open>df.columns = cs\<close>: \<^verbatim>\<open>ValueError\<close> unless there is one label for each column.\<close>

definition set_columns :: "string list \<Rightarrow> frame \<Rightarrow> py_error + frame" where
  "set_columns cs df =
     (if length cs = length (columns df) then Inr (df\<lparr>columns := cs\<rparr>) else Inl ValueError)"

text \<open>\<^verbatim>\<open>df[["peakid", "pkname"]]\<close> as (identifier, name) rows.\<close>

definition getitem2 :: "frame \<Rightarrow> string \<Rightarrow> string \<Rightarrow> py_error + (cell \<times> cell) list" where
  "getitem2 df a b =
     (case filter (\<lambda>c. c \<notin> set (columns df)) [a, b] of
        [] \<Rightarrow>
          (case getitem df a of
             Inl e \<Rightarrow> Inl e
           | Inr xs \<Rightarrow> (case getitem df b of Inl e \<Rightarrow> Inl e | Inr ys \<Rightarrow> Inr (zip xs ys)))
      | missing \<Rightarrow> Inl (KeyError missing))"

text \<open>
  \<^verbatim>\<open>left.merge(peaks[["peakid", "pkname"]], on="peakid", how="left")\<close>: the rows of the
  left frame in their order, each once for every row of Peak with its identifier (in the
  order of Peak) with that row's name, and once with a null name when there is none.
\<close>

definition merge_row :: "frame \<Rightarrow> (cell \<times> cell) list \<Rightarrow> cell list \<Rightarrow> cell list list" where
  "merge_row left right r =
     (case filter (\<lambda>p. fst p = cell_of left r ''peakid'') right of
        [] \<Rightarrow> [r @ [PyNaN]]
      | ms \<Rightarrow> map (\<lambda>p. r @ [snd p]) ms)"

text \<open>
  The check of a merge on the dtypes of its keys, for the columns that arise here: a
  column of numbers (\<^verbatim>\<open>int64\<close>: integers only; \<^verbatim>\<open>float64\<close>: floats and nulls only) does
  not merge with a column that holds strings and no integer. A side without rows is not
  checked.
\<close>

definition numeric_column :: "cell list \<Rightarrow> bool" where
  "numeric_column xs =
     (xs \<noteq> [] \<and>
      (list_all (\<lambda>c. case c of PyInt i \<Rightarrow> True | _ \<Rightarrow> False) xs
       \<or> list_all (\<lambda>c. case c of PyNaN \<Rightarrow> True | PyFloat n \<Rightarrow> True | _ \<Rightarrow> False) xs))"

definition stringlike_column :: "cell list \<Rightarrow> bool" where
  "stringlike_column xs =
     (list_ex (\<lambda>c. case c of PyStr s \<Rightarrow> True | _ \<Rightarrow> False) xs
      \<and> list_all (\<lambda>c. case c of PyInt i \<Rightarrow> False | _ \<Rightarrow> True) xs)"

definition keys_clash :: "cell list \<Rightarrow> cell list \<Rightarrow> bool" where
  "keys_clash lk rk =
     ((numeric_column lk \<and> stringlike_column rk) \<or> (stringlike_column lk \<and> numeric_column rk))"

definition merge_peaks :: "frame \<Rightarrow> frame \<Rightarrow> py_error + frame" where
  "merge_peaks left pk =
     (case getitem2 pk ''peakid'' ''pkname'' of
        Inl e \<Rightarrow> Inl e
      | Inr right \<Rightarrow>
          (case getitem left ''peakid'' of
             Inl e \<Rightarrow> Inl e
           | Inr lk \<Rightarrow>
               (if keys_clash lk (map fst right) then Inl ValueError
                else Inr \<lparr>columns = columns left @ [''pkname''],
                          rows = concat (map (merge_row left right) (rows left))\<rparr>)))"

text \<open>\<^verbatim>\<open>df.head(n)\<close>\<close>

definition head :: "nat \<Rightarrow> frame \<Rightarrow> frame" where
  "head n df = df\<lparr>rows := take n (rows df)\<rparr>"

text \<open>\<^verbatim>\<open>members["peakid"].value_counts().reset_index()\<close>\<close>

definition top_peaks_counts :: "frame \<Rightarrow> py_error + frame" where
  "top_peaks_counts ms =
     (case getitem ms ''peakid'' of
        Inl e \<Rightarrow> Inl e
      | Inr mp \<Rightarrow> Inr (reset_index (value_counts mp)))"

definition top5 :: "frame \<Rightarrow> frame \<Rightarrow> py_error + frame shown" where
  "top5 ms pk =
     (if ''peakid'' \<in> set (columns ms) \<and> ''peakid'' \<in> set (columns pk) then
        (case top_peaks_counts ms of
           Inl e \<Rightarrow> Inl e
         | Inr counts \<Rightarrow>
             (case set_columns [''peakid'', ''num_climbers''] counts of
                Inl e \<Rightarrow> Inl e
              | Inr top_peaks \<Rightarrow>
                  (case merge_peaks top_peaks pk of
                     Inl e \<Rightarrow> Inl e
                   | Inr merged \<Rightarrow> Inr (Metric (head 5 merged)))))
      else Inr (Notice RequiredColumnsMissing))"

section \<open>Most successful climber\<close>

definition name_cols :: "frame \<Rightarrow> string list" where
  "name_cols ms = filter (\<lambda>col. py_in ''name'' (lower col)) (columns ms)"

definition success_cols :: "frame \<Rightarrow> string list" where
  "success_cols ms = filter (\<lambda>col. py_in ''success'' (lower col)) (columns ms)"

text \<open>\<^verbatim>\<open>.astype(str).str.lower().isin(['true', '1', 'y', 'yes'])\<close> on one cell.\<close>

definition is_success :: "cell \<Rightarrow> bool" where
  "is_success c = (lower (py_str c) \<in> set [''true'', ''1'', ''y'', ''yes''])"

text \<open>
  \<^verbatim>\<open>s.idxmax()\<close> on a series of counts: the label of the first greatest count,
  \<^verbatim>\<open>ValueError\<close> on the empty series.
\<close>

fun idxmax_from :: "cell \<times> nat \<Rightarrow> (cell \<times> nat) list \<Rightarrow> cell" where
  "idxmax_from (k, n) [] = k"
| "idxmax_from (k, n) ((k', n') # kvs) =
     (if n < n' then idxmax_from (k', n') kvs else idxmax_from (k, n) kvs)"

definition idxmax :: "(cell \<times> nat) list \<Rightarrow> py_error + cell" where
  "idxmax kvs = (case kvs of [] \<Rightarrow> Inl ValueError | kv # rest \<Rightarrow> Inr (idxmax_from kv rest))"

text \<open>\<^verbatim>\<open>df.empty\<close>\<close>

definition frame_empty :: "frame \<Rightarrow> bool" where
  "frame_empty df = (rows df = [] \<or> columns df = [])"

text \<open>\<^verbatim>\<open>successful_members = members[members[success_col]...isin([...])]\<close>\<close>

definition successful_members :: "frame \<Rightarrow> py_error + frame" where
  "successful_members ms =
     (case getitem ms (hd (success_cols ms)) of
        Inl e \<Rightarrow> Inl e
      | Inr sc \<Rightarrow> Inr (select_rows ms (map is_success sc)))"

text \<open>\<^verbatim>\<open>successful_members[name_col].value_counts().idxmax()\<close>\<close>

definition idxmax_name :: "string \<Rightarrow> frame \<Rightarrow> py_error + cell" where
  "idxmax_name name_col successful =
     (case getitem successful name_col of
        Inl e \<Rightarrow> Inl e
      | Inr names \<Rightarrow> idxmax (value_counts names))"

definition most_successful :: "frame \<Rightarrow> py_error + cell shown" where
  "most_successful ms =
     (if name_cols ms \<noteq> [] \<and> success_cols ms \<noteq> [] then
        (case successful_members ms of
           Inl e \<Rightarrow> Inl e
         | Inr successful \<Rightarrow>
             (if \<not> frame_empty successful then
                (case idxmax_name (hd (name_cols ms)) successful of
                   Inl e \<Rightarrow> Inl e
                 | Inr k \<Rightarrow> Inr (Metric k))
              else Inr (Notice NoSuccessfulClimbs)))
      else Inr (Notice NoNameOrSuccessColumn))"

section \<open>Climbing trends over time\<close>

text \<open>
  The order in which \<^verbatim>\<open>groupby\<close> sorts its keys: numbers by value, before strings by
  code point.
\<close>

fun str_le :: "string \<Rightarrow> string \<Rightarrow> bool" where
  "str_le [] t = True"
| "str_le (a # s) [] = False"
| "str_le (a # s) (b # t) = ((of_char a :: nat) < of_char b \<or> (a = b \<and> str_le s t))"

fun cell_le :: "cell \<Rightarrow> cell \<Rightarrow> bool" where
  "cell_le (PyStr s) (PyStr t) = str_le s t"
| "cell_le (PyStr s) PyNaN = True"
| "cell_le (PyStr s) c = False"
| "cell_le PyNaN c = (c = PyNaN)"
| "cell_le c (PyStr t) = True"
| "cell_le c PyNaN = True"
| "cell_le c d = (the (py_num c) \<le> the (py_num d))"

fun insort_cell :: "cell \<Rightarrow> cell list \<Rightarrow> cell list" where
  "insort_cell x [] = [x]"
| "insort_cell x (y # ys) = (if cell_le x y then x # y # ys else y # insort_cell x ys)"

definition sort_cells :: "cell list \<Rightarrow> cell list" where
  "sort_cells xs = foldr insort_cell xs []"

text \<open>The values of a column in the rows of the group with key \<open>k\<close>.\<close>

definition group_of :: "cell \<Rightarrow> cell list \<Rightarrow> cell list \<Rightarrow> cell list" where
  "group_of k keys vals = map snd (filter (\<lambda>p. fst p = k) (zip keys vals))"

text \<open>
  \<^verbatim>\<open>exped.groupby("year").agg(total_expeditions=("expid", "count"),
  successful_expeditions=("success1", lambda x: (x == "success").sum())).reset_index()\<close>:
  one row for each non-null year, in ascending order; \<^verbatim>\<open>count\<close> counts the non-null cells.
\<close>

definition yearly_summary :: "frame \<Rightarrow> py_error + frame" where
  "yearly_summary ex =
     (case getitem ex ''year'' of
        Inl e \<Rightarrow> Inl e
      | Inr ys \<Rightarrow>
          (case filter (\<lambda>c. c \<notin> set (columns ex)) [''expid'', ''success1''] of
             [] \<Rightarrow>
               (case getitem ex ''expid'' of
                  Inl e \<Rightarrow> Inl e
                | Inr es \<Rightarrow>
                    (case getitem ex ''success1'' of
                       Inl e \<Rightarrow> Inl e
                     | Inr ss \<Rightarrow>
                         Inr \<lparr>columns = [''year'', ''total_expeditions'', ''successful_expeditions''],
                              rows = map (\<lambda>y.
                                [y,
                                 PyInt (int (length (dropna (group_of y ys es)))),
                                 PyInt (int (length (filter (\<lambda>x. py_eq x (PyStr ''success''))
                                                        (group_of y ys ss))))])
                                (sort_cells (unique (dropna ys)))\<rparr>))
           | missing \<Rightarrow> Inl (KeyError missing)))"

text \<open>
  \<^verbatim>\<open>pd.melt(df, id_vars=i, value_vars=vs, var_name=m, value_name=n)\<close>: for each value
  column in turn, the rows of the frame with the column's label and its cell.
\<close>

definition melt :: "frame \<Rightarrow> string \<Rightarrow> string list \<Rightarrow> string \<Rightarrow> string \<Rightarrow> py_error + frame" where
  "melt df id_var value_vars var_name value_name =
     (case filter (\<lambda>c. c \<notin> set (columns df)) (id_var # value_vars) of
        [] \<Rightarrow>
          Inr \<lparr>columns = [id_var, var_name, value_name],
               rows = concat (map (\<lambda>v. map (\<lambda>r. [cell_of df r id_var, PyStr v, cell_of df r v])
                                          (rows df)) value_vars)\<rparr>
      | missing \<Rightarrow> Inl (KeyError missing))"

definition trend_data :: "frame \<Rightarrow> py_error + frame shown" where
  "trend_data ex =
     (if ''year'' \<in> set (columns ex) then
        (case yearly_summary ex of
           Inl e \<Rightarrow> Inl e
         | Inr ysum \<Rightarrow>
             (case melt ysum ''year'' [''total_expeditions'', ''successful_expeditions'']
                     ''Metric'' ''Count'' of
                Inl e \<Rightarrow> Inl e
              | Inr td \<Rightarrow> Inr (Metric td)))
      else Inr (Notice YearColumnNotFound))"

section \<open>Successful Everest climbers\<close>

text \<open>
  The \<^verbatim>\<open>.str\<close> accessor raises \<^verbatim>\<open>AttributeError\<close> on a column that is not of strings:
  here, a column with rows that holds numbers and nulls only, or booleans and nulls only.
\<close>

definition non_string_column :: "cell list \<Rightarrow> bool" where
  "non_string_column xs =
     (xs \<noteq> [] \<and>
      (list_all (\<lambda>c. case c of PyStr s \<Rightarrow> False | PyBool b \<Rightarrow> False | _ \<Rightarrow> True) xs
       \<or> list_all (\<lambda>c. case c of PyNaN \<Rightarrow> True | PyBool b \<Rightarrow> True | _ \<Rightarrow> False) xs))"

text \<open>
  \<^verbatim>\<open>s.str.contains(pat, case=False, na=False)\<close> on one cell, for a pattern without
  special characters: false on a null and on a cell that is not a string.
\<close>

definition str_contains_nocase :: "string \<Rightarrow> cell \<Rightarrow> bool" where
  "str_contains_nocase pat c = (case c of PyStr s \<Rightarrow> py_in (lower pat) (lower s) | _ \<Rightarrow> False)"

text \<open>\<^verbatim>\<open>everest_id = peaks[peaks['pkname'].str.contains(...)]["peakid"].values\<close>\<close>

definition everest_id :: "frame \<Rightarrow> py_error + cell list" where
  "everest_id pk =
     (case getitem pk ''pkname'' of
        Inl e \<Rightarrow> Inl e
      | Inr names \<Rightarrow>
          (if non_string_column names then Inl AttributeError
           else getitem (select_rows pk (map (str_contains_nocase ''Everest'') names)) ''peakid''))"

text \<open>The frame \<^verbatim>\<open>everest_climbers\<close>: the member rows of an Everest peak with a success.\<close>

definition everest_rows :: "frame \<Rightarrow> frame \<Rightarrow> py_error + frame" where
  "everest_rows ms pk =
     (case everest_id pk of
        Inl e \<Rightarrow> Inl e
      | Inr ids \<Rightarrow>
          (case getitem ms ''peakid'' of
             Inl e \<Rightarrow> Inl e
           | Inr mp \<Rightarrow>
               (case getitem ms (hd (success_cols ms)) of
                  Inl e \<Rightarrow> Inl e
                | Inr sc \<Rightarrow>
                    Inr (select_rows ms
                      (map (\<lambda>(a, b). a \<and> b)
                         (zip (map (\<lambda>c. c \<in> set ids) mp) (map is_success sc)))))))"

text \<open>The count shown is \<^verbatim>\<open>everest_climbers.shape[0]\<close>.\<close>

definition everest_climbers :: "frame \<Rightarrow> frame \<Rightarrow> py_error + nat shown" where
  "everest_climbers ms pk =
     (if ''peakid'' \<in> set (columns ms) \<and> success_cols ms \<noteq> [] then
        (case everest_rows ms pk of
           Inl e \<Rightarrow> Inl e
         | Inr f \<Rightarrow> Inr (Metric (length (rows f))))
      else Inr (Notice PeakidOrSuccessNotFound))"

section \<open>The analysis section of the script\<close>

text \<open>
  The script computes and shows its five outputs one after the other. An exception ends
  the run: what was shown before it stays on the page, and nothing after it is computed.
\<close>

datatype display =
    Top5 "frame shown"
  | ClimbedPct real
  | MostSuccessful "cell shown"
  | Trend "frame shown"
  | EverestClimbers "nat shown"

definition blocks :: "(tables \<Rightarrow> py_error + display) list" where
  "blocks =
     [\<lambda>t. map_sum id Top5 (top5 (members t) (peaks t)),
      \<lambda>t. map_sum id ClimbedPct (climbed_pct (members t) (peaks t)),
      \<lambda>t. map_sum id MostSuccessful (most_successful (members t)),
      \<lambda>t. map_sum id Trend (trend_data (exped t)),
      \<lambda>t. map_sum id EverestClimbers (everest_climbers (members t) (peaks t))]"

fun run_blocks :: "(tables \<Rightarrow> py_error + display) list \<Rightarrow> tables \<Rightarrow> display list \<times> py_error option" where
  "run_blocks [] t = ([], None)"
| "run_blocks (b # bs) t =
     (case b t of
        Inl e \<Rightarrow> ([], Some e)
      | Inr d \<Rightarrow> (case run_blocks bs t of (ds, r) \<Rightarrow> (d # ds, r)))"

definition analysis :: "tables \<Rightarrow> display list \<times> py_error option" where
  "analysis t = run_blocks blocks t"

section \<open>The frames of the script as objects\<close>

text \<open>
  A Python variable refers to an object, and two variables may refer to the same one. To
  state what the script does to the frames it was given, the frames are kept in a heap
  (a list of objects, an address being an index), and the variables of the script are
  bound to addresses. The statements of the script that concern frames are of four
  kinds: an assignment \<^verbatim>\<open>x = e\<close> whose expression builds a new frame from the frames of
  the variables it reads (indexing with a mask, \<^verbatim>\<open>value_counts\<close>, \<^verbatim>\<open>reset_index\<close>, \<^verbatim>\<open>merge\<close>,
  \<^verbatim>\<open>head\<close>, \<^verbatim>\<open>groupby\<close>, \<^verbatim>\<open>melt\<close> all return new objects; none is called with
  \<^verbatim>\<open>inplace=True\<close> after loading); the assignment \<^verbatim>\<open>x.columns = cs\<close>, which changes the
  object of \<open>x\<close> in place; the evaluation of an expression for its value, which may raise;
  and \<^verbatim>\<open>if\<close>/\<^verbatim>\<open>else\<close>.
\<close>

type_synonym addr = nat
type_synonym heap = "frame list"
type_synonym env = "string \<Rightarrow> addr option"

datatype stmt =
    Assign string "string list" "frame list \<Rightarrow> py_error + frame"
  | SetColumns string "string list"
  | Eval "string list" "frame list \<Rightarrow> py_error option"
  | IfElse "string list" "frame list \<Rightarrow> bool" "stmt list" "stmt list"

text \<open>The frames that a list of variables refers to.\<close>

fun frames_of :: "env \<Rightarrow> heap \<Rightarrow> string list \<Rightarrow> py_error + frame list" where
  "frames_of env h [] = Inr []"
| "frames_of env h (v # vs) =
     (case env v of
        None \<Rightarrow> Inl (NameError v)
      | Some a \<Rightarrow> (case frames_of env h vs of Inl e \<Rightarrow> Inl e | Inr fs \<Rightarrow> Inr (h ! a # fs)))"

text \<open>
  Running a list of statements: the bindings and the heap at the end, and the exception
  that ended the run, if one was raised.
\<close>

fun exec :: "stmt list \<Rightarrow> env \<Rightarrow> heap \<Rightarrow> env \<times> heap \<times> py_error option" where
  "exec [] env h = (env, h, None)"
| "exec (Assign x vs e # ss) env h =
     (case frames_of env h vs of
        Inl err \<Rightarrow> (env, h, Some err)
      | Inr fs \<Rightarrow>
          (case e fs of
             Inl err \<Rightarrow> (env, h, Some err)
           | Inr f \<Rightarrow> exec ss (env(x \<mapsto> length h)) (h @ [f])))"
| "exec (SetColumns x cs # ss) env h =
     (case env x of
        None \<Rightarrow> (env, h, Some (NameError x))
      | Some a \<Rightarrow>
          (case set_columns cs (h ! a) of
             Inl err \<Rightarrow> (env, h, Some err)
           | Inr f \<Rightarrow> exec ss env (h[a := f])))"
| "exec (Eval vs e # ss) env h =
     (case frames_of env h vs of
        Inl err \<Rightarrow> (env, h, Some err)
      | Inr fs \<Rightarrow> (case e fs of Some err \<Rightarrow> (env, h, Some err) | None \<Rightarrow> exec ss env h))"
| "exec (IfElse vs c a b # ss) env h =
     (case frames_of env h vs of
        Inl err \<Rightarrow> (env, h, Some err)
      | Inr fs \<Rightarrow>
          (case exec (if c fs then a else b) env h of
             (env', h', Some err) \<Rightarrow> (env', h', Some err)
           | (env', h', None) \<Rightarrow> exec ss env' h'))"

definition error_of :: "py_error + 'a \<Rightarrow> py_error option" where
  "error_of r = (case r of Inl e \<Rightarrow> Some e | Inr v \<Rightarrow> None)"

text \<open>
  The statements of the script from the filters to the end of the analysis section
  (lines 59 to 155), for the selected year and country.
\<close>

definition script :: "cell \<Rightarrow> cell \<Rightarrow> stmt list" where
  "script selected_year selected_country =
     [Assign ''filtered_exped'' [''exped''] (\<lambda>fs. filtered_exped (fs ! 0) selected_year),
      Assign ''filtered_members'' [''members''] (\<lambda>fs. filtered_members (fs ! 0) selected_country),
      IfElse [''members'', ''peaks'']
        (\<lambda>fs. ''peakid'' \<in> set (columns (fs ! 0)) \<and> ''peakid'' \<in> set (columns (fs ! 1)))
        [Assign ''top_peaks'' [''members''] (\<lambda>fs. top_peaks_counts (fs ! 0)),
         SetColumns ''top_peaks'' [''peakid'', ''num_climbers''],
         Assign ''top_peaks'' [''top_peaks'', ''peaks''] (\<lambda>fs. merge_peaks (fs ! 0) (fs ! 1)),
         Assign ''top5'' [''top_peaks''] (\<lambda>fs. Inr (head 5 (fs ! 0)))]
        [],
      Eval [''members'', ''peaks''] (\<lambda>fs. error_of (climbed_pct (fs ! 0) (fs ! 1))),
      IfElse [''members'']
        (\<lambda>fs. name_cols (fs ! 0) \<noteq> [] \<and> success_cols (fs ! 0) \<noteq> [])
        [Assign ''successful_members'' [''members''] (\<lambda>fs. successful_members (fs ! 0)),
         IfElse [''successful_members''] (\<lambda>fs. \<not> frame_empty (fs ! 0))
           [Eval [''members'', ''successful_members'']
              (\<lambda>fs. error_of (idxmax_name (hd (name_cols (fs ! 0))) (fs ! 1)))]
           []]
        [],
      IfElse [''exped''] (\<lambda>fs. ''year'' \<in> set (columns (fs ! 0)))
        [Assign ''yearly_summary'' [''exped''] (\<lambda>fs. yearly_summary (fs ! 0)),
         Assign ''trend_data'' [''yearly_summary'']
           (\<lambda>fs. melt (fs ! 0) ''year'' [''total_expeditions'', ''successful_expeditions'']
                    ''Metric'' ''Count'')]
        [],
      IfElse [''members'']
        (\<lambda>fs. ''peakid'' \<in> set (columns (fs ! 0)) \<and> success_cols (fs ! 0) \<noteq> [])
        [Assign ''everest_climbers'' [''members'', ''peaks''] (\<lambda>fs. everest_rows (fs ! 0) (fs ! 1))]
        []]"

text \<open>
  A list of statements changes in place only objects that it has built itself: every
  \<^verbatim>\<open>x.columns = cs\<close> comes after an assignment to \<open>x\<close> (\<open>V\<close> holds the variables assigned
  so far).
\<close>

fun writes_fresh :: "string set \<Rightarrow> stmt list \<Rightarrow> bool" where
  "writes_fresh V [] = True"
| "writes_fresh V (Assign x vs e # ss) = writes_fresh (insert x V) ss"
| "writes_fresh V (SetColumns x cs # ss) = (x \<in> V \<and> writes_fresh V ss)"
| "writes_fresh V (Eval vs e # ss) = writes_fresh V ss"
| "writes_fresh V (IfElse vs c a b # ss) = (writes_fresh V a \<and> writes_fresh V b \<and> writes_fresh V ss)"

text \<open>The variables that a list of statements assigns.\<close>

fun targets :: "stmt list \<Rightarrow> string set" where
  "targets [] = {}"
| "targets (Assign x vs e # ss) = insert x (targets ss)"
| "targets (SetColumns x cs # ss) = targets ss"
| "targets (Eval vs e # ss) = targets ss"
| "targets (IfElse vs c a b # ss) = targets a \<union> targets b \<union> targets ss"

section \<open>Properties\<close>

subsection \<open>Distinct counts\<close>

lemma nunique_card: "nunique xs = card (set (dropna xs))"
  by (simp add: nunique_def unique_def length_remdups_card_conv)

lemma set_dropna: "set (dropna xs) = set xs - {PyNaN}"
  by (auto simp: dropna_def)

lemma nunique_card_set: "nunique xs = card (set xs - {PyNaN})"
  by (simp add: nunique_card set_dropna)

lemma dropna_idem: "dropna (dropna xs) = dropna xs"
  by (simp add: dropna_def)

lemma nunique_dropna: "nunique (dropna xs) = nunique xs"
  by (simp add: nunique_def dropna_idem)

lemma nunique_mono: "set (dropna xs) \<subseteq> set (dropna ys) \<Longrightarrow> nunique xs \<le> nunique ys"
  by (simp add: nunique_card card_mono)

subsection \<open>Percentage of peaks climbed\<close>

text \<open>
  C1. The claim: when the Peak table has no distinct peak identifier, the percentage
  operation does not raise; the division is guarded and the result is reported as
  indeterminate. The code has no such guard: on a Peak table without rows (a
  \<^verbatim>\<open>peaks.csv\<close> of a header line only) the division \<^verbatim>\<open>peaks_climbed / total_peaks\<close>
  raises \<^verbatim>\<open>ZeroDivisionError\<close>.
\<close>

theorem climbed_pct_zero_total:
  "climbed_pct \<lparr>columns = [''peakid''], rows = [[PyStr ''EVER'']]\<rparr>
               \<lparr>columns = [''peakid'', ''pkname''], rows = []\<rparr> = Inl ZeroDivisionError"
  by (simp add: climbed_pct_def getitem_def nunique_def unique_def dropna_def py_truediv_def)

text \<open>
  C3, as the spec states it: with a positive number of distinct identifiers in Peak, the
  percentage lies in [0, 100]. It does not: the identifiers of Member need not occur in
  Peak, and two distinct member identifiers over one peak give 200.
\<close>

theorem climbed_pct_above_100:
  "0 < nunique [PyStr ''EVER'']
   \<and> climbed_pct \<lparr>columns = [''peakid''], rows = [[PyStr ''EVER''], [PyStr ''UNKNOWN'']]\<rparr>
        \<lparr>columns = [''peakid'', ''pkname''], rows = [[PyStr ''EVER'', PyStr ''Everest'']]\<rparr> = Inr 200
   \<and> \<not> (200 :: real) \<le> 100"
  by (simp add: climbed_pct_def getitem_def nunique_def unique_def dropna_def py_truediv_def)

text \<open>
  C3, amended: for a member table and a peak table (frames with pairwise distinct labels)
  with their \<^verbatim>\<open>peakid\<close> columns, each of values of one type, and a positive number of
  distinct non-null identifiers in Peak, the percentage is the quotient of the two distinct
  counts times 100; it is never negative; it is at most 100 exactly when Member has no
  more distinct non-null identifiers than Peak, and so whenever every non-null identifier
  of Member occurs in Peak.
\<close>

theorem climbed_pct_bounds:
  assumes "wf_frame ms" and "wf_frame pk"
    and "getitem ms ''peakid'' = Inr mp"
    and "getitem pk ''peakid'' = Inr pp"
    and "one_type mp" and "one_type pp"
    and "0 < nunique pp"
  shows "\<exists>q. climbed_pct ms pk = Inr q
           \<and> q = real (nunique mp) / real (nunique pp) * 100
           \<and> nunique mp = card (set mp - {PyNaN})
           \<and> nunique pp = card (set pp - {PyNaN})
           \<and> 0 \<le> q
           \<and> (q \<le> 100 \<longleftrightarrow> nunique mp \<le> nunique pp)
           \<and> (set mp - {PyNaN} \<subseteq> set pp - {PyNaN} \<longrightarrow> q \<le> 100)"
proof -
  let ?q = "real (nunique mp) / real (nunique pp) * 100"
  have run: "climbed_pct ms pk = Inr ?q"
    using assms(3,4,7) by (simp add: climbed_pct_def py_truediv_def nunique_dropna)
  have pos: "0 \<le> ?q" by simp
  have le: "?q \<le> 100 \<longleftrightarrow> nunique mp \<le> nunique pp"
    using assms(7) by (simp add: divide_le_eq)
  have sub: "set mp - {PyNaN} \<subseteq> set pp - {PyNaN} \<longrightarrow> ?q \<le> 100"
    using le nunique_mono [of mp pp] by (simp add: set_dropna)
  show ?thesis using run pos le sub nunique_card_set [of mp] nunique_card_set [of pp] by blast
qed

theorem climbed_pct_bounds_witness:
  "wf_frame \<lparr>columns = [''peakid''], rows = [[PyStr ''EVER''], [PyNaN], [PyStr ''EVER'']]\<rparr>
   \<and> wf_frame \<lparr>columns = [''peakid'', ''pkname''],
               rows = [[PyStr ''EVER'', PyStr ''Everest''], [PyStr ''LHOT'', PyStr ''Lhotse'']]\<rparr>
   \<and> getitem \<lparr>columns = [''peakid''], rows = [[PyStr ''EVER''], [PyNaN], [PyStr ''EVER'']]\<rparr> ''peakid''
      = Inr [PyStr ''EVER'', PyNaN, PyStr ''EVER'']
   \<and> getitem \<lparr>columns = [''peakid'', ''pkname''],
               rows = [[PyStr ''EVER'', PyStr ''Everest''], [PyStr ''LHOT'', PyStr ''Lhotse'']]\<rparr> ''peakid''
      = Inr [PyStr ''EVER'', PyStr ''LHOT'']
   \<and> one_type [PyStr ''EVER'', PyNaN, PyStr ''EVER'']
   \<and> one_type [PyStr ''EVER'', PyStr ''LHOT'']
   \<and> 0 < nunique [PyStr ''EVER'', PyStr ''LHOT'']
   \<and> climbed_pct \<lparr>columns = [''peakid''], rows = [[PyStr ''EVER''], [PyNaN], [PyStr ''EVER'']]\<rparr>
        \<lparr>columns = [''peakid'', ''pkname''],
         rows = [[PyStr ''EVER'', PyStr ''Everest''], [PyStr ''LHOT'', PyStr ''Lhotse'']]\<rparr> = Inr 50"
proof -
  let ?ms = "\<lparr>columns = [''peakid''], rows = [[PyStr ''EVER''], [PyNaN], [PyStr ''EVER'']]\<rparr>"
  let ?pk = "\<lparr>columns = [''peakid'', ''pkname''],
               rows = [[PyStr ''EVER'', PyStr ''Everest''], [PyStr ''LHOT'', PyStr ''Lhotse'']]\<rparr>"
  have w1: "wf_frame ?ms" by (simp add: wf_frame_def)
  have w2: "wf_frame ?pk" by (simp add: wf_frame_def)
  have g1: "getitem ?ms ''peakid'' = Inr [PyStr ''EVER'', PyNaN, PyStr ''EVER'']"
    by (simp add: getitem_def)
  have g2: "getitem ?pk ''peakid'' = Inr [PyStr ''EVER'', PyStr ''LHOT'']"
    by (simp add: getitem_def)
  have t1: "one_type [PyStr ''EVER'', PyNaN, PyStr ''EVER'']" by (simp add: one_type_def)
  have t2: "one_type [PyStr ''EVER'', PyStr ''LHOT'']" by (simp add: one_type_def)
  have n2: "nunique [PyStr ''EVER'', PyStr ''LHOT''] = 2"
    by (simp add: nunique_def unique_def dropna_def)
  have n1: "nunique [PyStr ''EVER'', PyNaN, PyStr ''EVER''] = 1"
    by (simp add: nunique_def unique_def dropna_def)
  from climbed_pct_bounds [OF w1 w2 g1 g2 t1 t2] n1 n2 g1 g2 w1 w2 t1 t2 show ?thesis by auto
qed

subsection \<open>Equality of cells\<close>

lemma py_eq_str: "py_eq x (PyStr s) \<longleftrightarrow> x = PyStr s"
  by (cases x) auto

lemma py_eq_NaN_right: "\<not> py_eq c PyNaN"
  by (cases c) auto

lemma py_eq_same_type:
  assumes "one_type [c, y]"
  shows "py_eq c y \<longleftrightarrow> c = y \<and> y \<noteq> PyNaN"
  using assms by (cases c; cases y) (auto simp: one_type_def)

lemma one_type_Cons: "one_type (y # xs) \<Longrightarrow> c \<in> set xs \<Longrightarrow> one_type [c, y]"
  by (auto simp: one_type_def list_all_iff)

subsection \<open>Columns and masks\<close>

lemma mask_filter: "map fst (filter snd (zip xs (map P xs))) = filter P xs"
  by (induction xs) auto

lemma index_of_Some_iff: "(\<exists>i. index_of c cs = Some i) \<longleftrightarrow> c \<in> set cs"
  by (induction cs) auto

lemma index_of_None_iff: "index_of c cs = None \<longleftrightarrow> c \<notin> set cs"
  by (induction cs) auto

lemma getitem_cell_of:
  "c \<in> set (columns df) \<Longrightarrow> getitem df c = Inr (map (\<lambda>r. cell_of df r c) (rows df))"
  using index_of_Some_iff [of c "columns df"]
  by (auto simp: getitem_def cell_of_def)

lemma getitem_missing: "c \<notin> set (columns df) \<Longrightarrow> getitem df c = Inl (KeyError [c])"
  by (simp add: getitem_def index_of_None_iff split: option.splits)

lemma select_rows_col:
  "select_rows df (map Q (rows df)) = df\<lparr>rows := filter Q (rows df)\<rparr>"
  by (simp add: select_rows_def mask_filter)

lemma getitem_Inr_label: "getitem df c = Inr xs \<Longrightarrow> c \<in> set (columns df)"
  using index_of_Some_iff [of c "columns df"]
  by (auto simp: getitem_def split: option.splits)

subsection \<open>The year filter\<close>

text \<open>
  C8. For every expedition table (a frame with pairwise distinct labels and its
  \<^verbatim>\<open>year\<close> column) and every selected year, the year filter returns the table restricted
  to exactly the rows whose year cell equals the selected value by the \<^verbatim>\<open>==\<close> of Python,
  in their order: equality of values, never a range. For a selected value of the type of
  the column (as the select box gives it) these are the rows whose year cell is the
  selected value. When no row has that year, the result is the table without rows, and no
  error is raised.
\<close>

theorem filtered_exped_exact:
  assumes "wf_frame ex" and "''year'' \<in> set (columns ex)"
  shows "filtered_exped ex y =
           Inr (ex\<lparr>rows := filter (\<lambda>r. py_eq (cell_of ex r ''year'') y) (rows ex)\<rparr>)
         \<and> (one_type (y # map (\<lambda>r. cell_of ex r ''year'') (rows ex)) \<longrightarrow>
              filtered_exped ex y =
                Inr (ex\<lparr>rows := filter (\<lambda>r. cell_of ex r ''year'' = y \<and> y \<noteq> PyNaN) (rows ex)\<rparr>))
         \<and> ((\<forall>r \<in> set (rows ex). \<not> py_eq (cell_of ex r ''year'') y) \<longrightarrow>
              filtered_exped ex y = Inr (ex\<lparr>rows := []\<rparr>))
         \<and> (py_eq (PyInt i) (PyInt j) \<longleftrightarrow> i = j)
         \<and> (py_eq (PyFloat i) (PyInt j) \<longleftrightarrow> i = j)
         \<and> (py_eq (PyInt i) (PyFloat j) \<longleftrightarrow> i = j)
         \<and> (py_eq (PyFloat i) (PyFloat j) \<longleftrightarrow> i = j)
         \<and> (py_eq (PyBool b) (PyInt j) \<longleftrightarrow> j = (if b then 1 else 0))
         \<and> (py_eq (PyInt i) (PyBool b) \<longleftrightarrow> i = (if b then 1 else 0))
         \<and> (py_eq (PyStr s) (PyStr t) \<longleftrightarrow> s = t)
         \<and> \<not> py_eq (PyStr s) (PyInt j) \<and> \<not> py_eq (PyInt i) (PyStr t)
         \<and> \<not> py_eq PyNaN c \<and> \<not> py_eq c PyNaN"
proof -
  have run: "filtered_exped ex y =
           Inr (ex\<lparr>rows := filter (\<lambda>r. py_eq (cell_of ex r ''year'') y) (rows ex)\<rparr>)"
    using assms(2) by (simp add: filtered_exped_def getitem_cell_of select_rows_col comp_def)
  have none: "filter (\<lambda>r. py_eq (cell_of ex r ''year'') y) (rows ex) = []"
    if "\<forall>r \<in> set (rows ex). \<not> py_eq (cell_of ex r ''year'') y"
    using that by (auto simp: filter_empty_conv)
  have same: "filter (\<lambda>r. py_eq (cell_of ex r ''year'') y) (rows ex)
      = filter (\<lambda>r. cell_of ex r ''year'' = y \<and> y \<noteq> PyNaN) (rows ex)"
    if t: "one_type (y # map (\<lambda>r. cell_of ex r ''year'') (rows ex))"
  proof (rule filter_cong [OF refl])
    fix r
    assume "r \<in> set (rows ex)"
    then have "cell_of ex r ''year'' \<in> set (map (\<lambda>r. cell_of ex r ''year'') (rows ex))" by simp
    from py_eq_same_type [OF one_type_Cons [OF t this]]
    show "py_eq (cell_of ex r ''year'') y = (cell_of ex r ''year'' = y \<and> y \<noteq> PyNaN)" .
  qed
  have eqs: "(py_eq (PyInt i) (PyInt j) \<longleftrightarrow> i = j)
         \<and> (py_eq (PyFloat i) (PyInt j) \<longleftrightarrow> i = j)
         \<and> (py_eq (PyInt i) (PyFloat j) \<longleftrightarrow> i = j)
         \<and> (py_eq (PyFloat i) (PyFloat j) \<longleftrightarrow> i = j)
         \<and> (py_eq (PyBool b) (PyInt j) \<longleftrightarrow> j = (if b then 1 else 0))
         \<and> (py_eq (PyInt i) (PyBool b) \<longleftrightarrow> i = (if b then 1 else 0))
         \<and> (py_eq (PyStr s) (PyStr t) \<longleftrightarrow> s = t)
         \<and> \<not> py_eq (PyStr s) (PyInt j) \<and> \<not> py_eq (PyInt i) (PyStr t)
         \<and> \<not> py_eq PyNaN c \<and> \<not> py_eq c PyNaN"
    by (auto simp: py_eq_NaN_right)
  from run none same eqs show ?thesis by simp
qed

theorem filtered_exped_exact_witness:
  "wf_frame \<lparr>columns = [''expid'', ''year''],
      rows = [[PyStr ''a'', PyInt 2000], [PyStr ''b'', PyInt 2001], [PyStr ''c'', PyInt 2000]]\<rparr>
   \<and> filtered_exped
     \<lparr>columns = [''expid'', ''year''],
      rows = [[PyStr ''a'', PyInt 2000], [PyStr ''b'', PyInt 2001], [PyStr ''c'', PyInt 2000]]\<rparr>
     (PyInt 2000)
   = Inr \<lparr>columns = [''expid'', ''year''],
          rows = [[PyStr ''a'', PyInt 2000], [PyStr ''c'', PyInt 2000]]\<rparr>
   \<and> filtered_exped
     \<lparr>columns = [''expid'', ''year''],
      rows = [[PyStr ''a'', PyInt 2000], [PyStr ''b'', PyInt 2001], [PyStr ''c'', PyInt 2000]]\<rparr>
     (PyInt 200)
   = Inr \<lparr>columns = [''expid'', ''year''], rows = []\<rparr>
   \<and> filtered_exped
     \<lparr>columns = [''expid'', ''year''],
      rows = [[PyStr ''a'', PyInt 1], [PyStr ''b'', PyInt 2001]]\<rparr>
     (PyBool True)
   = Inr \<lparr>columns = [''expid'', ''year''], rows = [[PyStr ''a'', PyInt 1]]\<rparr>"
proof -
  let ?ex = "\<lparr>columns = [''expid'', ''year''],
      rows = [[PyStr ''a'', PyInt 2000], [PyStr ''b'', PyInt 2001], [PyStr ''c'', PyInt 2000]]\<rparr>"
  let ?ex1 = "\<lparr>columns = [''expid'', ''year''],
      rows = [[PyStr ''a'', PyInt 1], [PyStr ''b'', PyInt 2001]]\<rparr>"
  have w: "wf_frame ?ex" by (simp add: wf_frame_def)
  have w1: "wf_frame ?ex1" by (simp add: wf_frame_def)
  have c: "''year'' \<in> set (columns ?ex)" by simp
  have c1: "''year'' \<in> set (columns ?ex1)" by simp
  have a: "filtered_exped ?ex (PyInt 2000) = Inr \<lparr>columns = [''expid'', ''year''],
          rows = [[PyStr ''a'', PyInt 2000], [PyStr ''c'', PyInt 2000]]\<rparr>"
    using filtered_exped_exact [OF w c, of "PyInt 2000"] by (simp add: cell_of_def)
  have b: "filtered_exped ?ex (PyInt 200) = Inr \<lparr>columns = [''expid'', ''year''], rows = []\<rparr>"
    using filtered_exped_exact [OF w c, of "PyInt 200"] by (simp add: cell_of_def)
  have d: "filtered_exped ?ex1 (PyBool True)
      = Inr \<lparr>columns = [''expid'', ''year''], rows = [[PyStr ''a'', PyInt 1]]\<rparr>"
    using filtered_exped_exact [OF w1 c1, of "PyBool True"] by (simp add: cell_of_def)
  from w a b d show ?thesis by simp
qed

subsection \<open>Successful Everest climbers\<close>

text \<open>
  C4. For a peak table with the one row (E1, "Mount Everest") and a member table with
  three rows for E1 whose success indicators are "yes", "no" and "1", the count of
  successful Everest climbers is 2.
\<close>

theorem everest_climbers_example:
  "everest_climbers
     \<lparr>columns = [''peakid'', ''msuccess''],
      rows = [[PyStr ''E1'', PyStr ''yes''], [PyStr ''E1'', PyStr ''no''], [PyStr ''E1'', PyStr ''1'']]\<rparr>
     \<lparr>columns = [''peakid'', ''pkname''], rows = [[PyStr ''E1'', PyStr ''Mount Everest'']]\<rparr>
   = Inr (Metric 2)"
  by code_simp

subsection \<open>Most successful climber\<close>

lemma idxmax_from_max:
  "\<exists>n. (idxmax_from kv kvs, n) \<in> set (kv # kvs) \<and> (\<forall>p \<in> set (kv # kvs). snd p \<le> n)"
proof (induction kv kvs rule: idxmax_from.induct)
  case (1 k n)
  then show ?case by auto
next
  case (2 k n k' n' kvs)
  show ?case
  proof (cases "n < n'")
    case True
    with 2 obtain m where "(idxmax_from (k', n') kvs, m) \<in> set ((k', n') # kvs)"
      and "\<forall>p \<in> set ((k', n') # kvs). snd p \<le> m" by auto
    with True show ?thesis by (intro exI [of _ m]) auto
  next
    case False
    with 2 obtain m where "(idxmax_from (k, n) kvs, m) \<in> set ((k, n) # kvs)"
      and "\<forall>p \<in> set ((k, n) # kvs). snd p \<le> m" by auto
    with False show ?thesis by (intro exI [of _ m]) auto
  qed
qed

lemma set_unique: "set (unique xs) = set xs"
  by (simp add: unique_def)

lemma set_value_counts:
  "set (value_counts xs) = (\<lambda>k. (k, count_list (dropna xs) k)) ` set (dropna xs)"
  by (simp add: value_counts_def Let_def set_unique)

lemma count_list_dropna: "k \<noteq> PyNaN \<Longrightarrow> count_list (dropna xs) k = count_list xs k"
  by (induction xs) (auto simp: dropna_def)

lemma idxmax_value_counts:
  assumes "idxmax (value_counts xs) = Inr k"
  shows "k \<in> set xs \<and> k \<noteq> PyNaN \<and> (\<forall>k'. k' = PyNaN \<or> count_list xs k' \<le> count_list xs k)"
proof -
  from assms obtain kv kvs where vc: "value_counts xs = kv # kvs" and k: "k = idxmax_from kv kvs"
    by (auto simp: idxmax_def split: list.splits)
  from idxmax_from_max [of kv kvs] k vc obtain n where
    mem: "(k, n) \<in> set (value_counts xs)" and mx: "\<forall>p \<in> set (value_counts xs). snd p \<le> n"
    by auto
  from mem have kin: "k \<in> set (dropna xs)" and n: "n = count_list (dropna xs) k"
    by (auto simp: set_value_counts)
  from kin have knn: "k \<noteq> PyNaN" and kx: "k \<in> set xs" by (auto simp: dropna_def)
  have "count_list xs k' \<le> count_list xs k" if "k' \<noteq> PyNaN" for k'
  proof (cases "k' \<in> set xs")
    case True
    with that have "k' \<in> set (dropna xs)" by (simp add: dropna_def)
    then have "(k', count_list (dropna xs) k') \<in> set (value_counts xs)"
      by (simp add: set_value_counts)
    with mx have "count_list (dropna xs) k' \<le> n" by fastforce
    with n that knn show ?thesis by (simp add: count_list_dropna)
  next
    case False
    then show ?thesis by (simp add: count_list_0_iff)
  qed
  with knn kx show ?thesis by blast
qed


lemma most_successful_returns:
  assumes ne: "name_cols ms \<noteq> []" "success_cols ms \<noteq> []"
    and r: "r \<in> set (rows ms)"
      "is_success (cell_of ms r (hd (success_cols ms)))"
      "cell_of ms r (hd (name_cols ms)) \<noteq> PyNaN"
  shows "\<exists>k. most_successful ms = Inr (Metric k)"
proof -
  define nc where "nc = hd (name_cols ms)"
  define sc where "sc = hd (success_cols ms)"
  have "nc \<in> set (name_cols ms)" "sc \<in> set (success_cols ms)"
    using ne by (simp_all add: nc_def sc_def)
  then have ncin: "nc \<in> set (columns ms)" and scin: "sc \<in> set (columns ms)"
    by (auto simp: name_cols_def success_cols_def)
  define surv where "surv = ms\<lparr>rows := filter (\<lambda>r. is_success (cell_of ms r sc)) (rows ms)\<rparr>"
  have sm: "successful_members ms = Inr surv"
    using scin by (simp add: successful_members_def sc_def [symmetric] getitem_cell_of
        select_rows_col comp_def surv_def)
  from r have rin: "r \<in> set (rows surv)" by (simp add: surv_def sc_def)
  from rin have "rows surv \<noteq> []" by auto
  moreover from ncin have "columns surv \<noteq> []" by (auto simp: surv_def)
  ultimately have nonempty: "\<not> frame_empty surv"
    by (simp add: frame_empty_def)
  have cs: "cell_of surv x c = cell_of ms x c" for x c
    by (simp add: surv_def cell_of_def)
  let ?names = "map (\<lambda>r. cell_of ms r nc) (rows surv)"
  have gn: "getitem surv nc = Inr ?names"
    using ncin getitem_cell_of [of nc surv] by (simp add: cs) (simp add: surv_def)
  from rin r(3) have "cell_of ms r nc \<in> set (dropna ?names)"
    by (auto simp: dropna_def nc_def)
  then have "set (value_counts ?names) \<noteq> {}"
    by (auto simp: set_value_counts)
  then obtain kv kvs where "value_counts ?names = kv # kvs"
    by (cases "value_counts ?names") auto
  then have "idxmax_name nc surv = Inr (idxmax_from kv kvs)"
    by (simp add: idxmax_name_def gn idxmax_def)
  with sm nonempty ne show ?thesis
    by (simp add: most_successful_def nc_def [symmetric])
qed


lemma most_successful_result:
  assumes run: "most_successful ms = Inr (Metric k)"
  shows "\<exists>name_col success_col names.
           name_cols ms = name_col # tl (name_cols ms)
         \<and> success_cols ms = success_col # tl (success_cols ms)
         \<and> names = map (\<lambda>r. cell_of ms r name_col)
                     (filter (\<lambda>r. is_success (cell_of ms r success_col)) (rows ms))
         \<and> k \<in> set names \<and> k \<noteq> PyNaN
         \<and> (\<forall>k'. k' = PyNaN \<or> count_list names k' \<le> count_list names k)"
proof -
  from run have ne: "name_cols ms \<noteq> []" "success_cols ms \<noteq> []"
    by (auto simp: most_successful_def split: if_splits)
  define nc where "nc = hd (name_cols ms)"
  define sc where "sc = hd (success_cols ms)"
  from ne have nceq: "name_cols ms = nc # tl (name_cols ms)"
    and sceq: "success_cols ms = sc # tl (success_cols ms)"
    by (simp_all add: nc_def sc_def)
  have "nc \<in> set (name_cols ms)" "sc \<in> set (success_cols ms)"
    using ne by (simp_all add: nc_def sc_def)
  then have ncin: "nc \<in> set (columns ms)" and scin: "sc \<in> set (columns ms)"
    by (auto simp: name_cols_def success_cols_def)
  define surv where "surv = ms\<lparr>rows := filter (\<lambda>r. is_success (cell_of ms r sc)) (rows ms)\<rparr>"
  have sel: "select_rows ms (map is_success (map (\<lambda>r. cell_of ms r sc) (rows ms))) = surv"
    by (simp add: surv_def select_rows_col comp_def)
  have cs: "cell_of surv r c = cell_of ms r c" for r c
    by (simp add: surv_def cell_of_def)
  have gn: "getitem surv nc = Inr (map (\<lambda>r. cell_of ms r nc) (rows surv))"
    using ncin getitem_cell_of [of nc surv] by (simp add: cs) (simp add: surv_def)
  let ?names = "map (\<lambda>r. cell_of ms r nc) (rows surv)"
  from run ne have "idxmax (value_counts ?names) = Inr k"
    using getitem_cell_of [OF scin] sel gn
    by (auto simp: most_successful_def successful_members_def idxmax_name_def Let_def
          nc_def [symmetric] sc_def [symmetric]
        split: if_splits sum.splits)
  from idxmax_value_counts [OF this] nceq sceq show ?thesis
    by (intro exI [of _ nc] exI [of _ sc] exI [of _ ?names]) (simp add: surv_def)
qed

lemma name_cols_hd:
  "name_cols ms = c # cs \<Longrightarrow> c \<in> set (columns ms) \<and> py_in ''name'' (lower c)"
proof -
  assume "name_cols ms = c # cs"
  then have "c \<in> set (filter (\<lambda>col. py_in ''name'' (lower col)) (columns ms))"
    by (simp add: name_cols_def)
  then show ?thesis by simp
qed

lemma success_cols_hd:
  "success_cols ms = c # cs \<Longrightarrow> c \<in> set (columns ms) \<and> py_in ''success'' (lower c)"
proof -
  assume "success_cols ms = c # cs"
  then have "c \<in> set (filter (\<lambda>col. py_in ''success'' (lower col)) (columns ms))"
    by (simp add: success_cols_def)
  then show ?thesis by simp
qed

text \<open>
  C5. For the members (Alice, yes), (Bob, no), (Alice, 1) the most successful climber is
  Alice, with 2 successful rows. The filter keeps exactly the rows whose success
  indicator, as a string (\<^verbatim>\<open>str\<close>) in lower case, is one of true, 1, y, yes: so "YES",
  the boolean \<^verbatim>\<open>True\<close> and the integer 1 pass, and "no", a null and the float 1.0 do not.
  In general, for a member table (a frame with pairwise distinct labels, the names of one
  type): when the operation returns a name, the name is a non-null cell of the name column
  in the rows that pass the filter, and no other name has more of these rows; the name
  column and the success column are the first columns whose labels contain "name" and
  "success". The operation does return a name whenever these columns exist and some row
  passes the filter with a non-null name.
\<close>

theorem most_successful_max:
  "most_successful
       \<lparr>columns = [''fname'', ''msuccess''],
        rows = [[PyStr ''Alice'', PyStr ''yes''], [PyStr ''Bob'', PyStr ''no''],
                [PyStr ''Alice'', PyStr ''1'']]\<rparr> = Inr (Metric (PyStr ''Alice''))
   \<and> count_list
         (map (\<lambda>r. r ! 0)
            (filter (\<lambda>r. lower (py_str (r ! 1)) \<in> {''true'', ''1'', ''y'', ''yes''})
               [[PyStr ''Alice'', PyStr ''yes''], [PyStr ''Bob'', PyStr ''no''],
                [PyStr ''Alice'', PyStr ''1'']]))
         (PyStr ''Alice'') = 2
   \<and> lower (py_str (PyStr ''YES'')) = ''yes''
   \<and> lower (py_str (PyBool True)) = ''true''
   \<and> lower (py_str (PyInt 1)) = ''1''
   \<and> lower (py_str (PyStr ''no'')) = ''no''
   \<and> lower (py_str PyNaN) = ''nan''
   \<and> lower (py_str (PyFloat 1)) = ''1.0''
   \<and> (wf_frame ms
        \<and> one_type (map (\<lambda>r. cell_of ms r (hd (name_cols ms))) (rows ms))
        \<and> most_successful ms = Inr (Metric k) \<longrightarrow>
        (\<exists>name_col success_col names.
           name_cols ms = name_col # tl (name_cols ms)
         \<and> name_col \<in> set (columns ms) \<and> py_in ''name'' (lower name_col)
         \<and> success_cols ms = success_col # tl (success_cols ms)
         \<and> success_col \<in> set (columns ms) \<and> py_in ''success'' (lower success_col)
         \<and> names = map (\<lambda>r. cell_of ms r name_col)
                     (filter (\<lambda>r. lower (py_str (cell_of ms r success_col)) \<in> {''true'', ''1'', ''y'', ''yes''})
                        (rows ms))
         \<and> k \<in> set names \<and> k \<noteq> PyNaN
         \<and> (\<forall>k'. k' = PyNaN \<or> count_list names k' \<le> count_list names k)))
   \<and> (wf_frame ms \<and> name_cols ms \<noteq> [] \<and> success_cols ms \<noteq> []
        \<and> (\<exists>r \<in> set (rows ms).
              lower (py_str (cell_of ms r (hd (success_cols ms)))) \<in> {''true'', ''1'', ''y'', ''yes''}
               \<and> cell_of ms r (hd (name_cols ms)) \<noteq> PyNaN) \<longrightarrow>
        (\<exists>k. most_successful ms = Inr (Metric k)))"
proof -
  have iss: "is_success c \<longleftrightarrow> lower (py_str c) \<in> {''true'', ''1'', ''y'', ''yes''}" for c
    by (simp add: is_success_def)
  have ret: "\<exists>k. most_successful ms = Inr (Metric k)"
    if "name_cols ms \<noteq> []" "success_cols ms \<noteq> []"
      and "\<exists>r \<in> set (rows ms).
              lower (py_str (cell_of ms r (hd (success_cols ms)))) \<in> {''true'', ''1'', ''y'', ''yes''}
               \<and> cell_of ms r (hd (name_cols ms)) \<noteq> PyNaN"
    using that most_successful_returns [of ms] unfolding iss by blast
  have ex: "most_successful
       \<lparr>columns = [''fname'', ''msuccess''],
        rows = [[PyStr ''Alice'', PyStr ''yes''], [PyStr ''Bob'', PyStr ''no''],
                [PyStr ''Alice'', PyStr ''1'']]\<rparr> = Inr (Metric (PyStr ''Alice''))"
    by code_simp
  have cnt: "count_list
         (map (\<lambda>r. r ! 0)
            (filter (\<lambda>r. lower (py_str (r ! 1)) \<in> {''true'', ''1'', ''y'', ''yes''})
               [[PyStr ''Alice'', PyStr ''yes''], [PyStr ''Bob'', PyStr ''no''],
                [PyStr ''Alice'', PyStr ''1'']]))
         (PyStr ''Alice'') = 2"
    by code_simp
  have l1: "lower (py_str (PyStr ''YES'')) = ''yes''" by code_simp
  have l2: "lower (py_str (PyBool True)) = ''true''" by code_simp
  have l3: "lower (py_str (PyInt 1)) = ''1''" by code_simp
  have l4: "lower (py_str (PyStr ''no'')) = ''no''" by code_simp
  have l5: "lower (py_str PyNaN) = ''nan''" by code_simp
  have l6: "lower (py_str (PyFloat 1)) = ''1.0''" by code_simp
  have gen: "\<exists>name_col success_col names.
           name_cols ms = name_col # tl (name_cols ms)
         \<and> name_col \<in> set (columns ms) \<and> py_in ''name'' (lower name_col)
         \<and> success_cols ms = success_col # tl (success_cols ms)
         \<and> success_col \<in> set (columns ms) \<and> py_in ''success'' (lower success_col)
         \<and> names = map (\<lambda>r. cell_of ms r name_col)
                     (filter (\<lambda>r. lower (py_str (cell_of ms r success_col)) \<in> {''true'', ''1'', ''y'', ''yes''})
                        (rows ms))
         \<and> k \<in> set names \<and> k \<noteq> PyNaN
         \<and> (\<forall>k'. k' = PyNaN \<or> count_list names k' \<le> count_list names k)"
    if run: "most_successful ms = Inr (Metric k)"
  proof -
    from most_successful_result [OF run, unfolded iss]
    obtain name_col success_col names where
      a: "name_cols ms = name_col # tl (name_cols ms)"
      and b: "success_cols ms = success_col # tl (success_cols ms)"
      and c: "names = map (\<lambda>r. cell_of ms r name_col)
                     (filter (\<lambda>r. lower (py_str (cell_of ms r success_col)) \<in> {''true'', ''1'', ''y'', ''yes''})
                        (rows ms))"
      and d: "k \<in> set names" "k \<noteq> PyNaN"
      and e: "\<forall>k'. k' = PyNaN \<or> count_list names k' \<le> count_list names k"
      by blast
    from name_cols_hd [OF a] success_cols_hd [OF b] a b c d e show ?thesis by blast
  qed
  from ex cnt l1 l2 l3 l4 l5 l6 gen ret show ?thesis by blast
qed

theorem most_successful_max_witness:
  "wf_frame \<lparr>columns = [''peakid'', ''fname'', ''msuccess''],
        rows = [[PyStr ''EVER'', PyStr ''Tenzing'', PyBool True],
                [PyStr ''EVER'', PyStr ''Edmund'', PyStr ''Y''],
                [PyStr ''LHOT'', PyStr ''Tenzing'', PyStr ''TRUE''],
                [PyStr ''LHOT'', PyStr ''George'', PyStr ''no''],
                [PyStr ''LHOT'', PyStr ''George'', PyFloat 1],
                [PyStr ''LHOT'', PyStr ''George'', PyNaN]]\<rparr>
   \<and> most_successful
       \<lparr>columns = [''peakid'', ''fname'', ''msuccess''],
        rows = [[PyStr ''EVER'', PyStr ''Tenzing'', PyBool True],
                [PyStr ''EVER'', PyStr ''Edmund'', PyStr ''Y''],
                [PyStr ''LHOT'', PyStr ''Tenzing'', PyStr ''TRUE''],
                [PyStr ''LHOT'', PyStr ''George'', PyStr ''no''],
                [PyStr ''LHOT'', PyStr ''George'', PyFloat 1],
                [PyStr ''LHOT'', PyStr ''George'', PyNaN]]\<rparr> = Inr (Metric (PyStr ''Tenzing''))
   \<and> (\<exists>names.
         names = [PyStr ''Tenzing'', PyStr ''Edmund'', PyStr ''Tenzing'']
       \<and> PyStr ''Tenzing'' \<in> set names
       \<and> (\<forall>k'. k' = PyNaN \<or> count_list names k' \<le> count_list names (PyStr ''Tenzing'')))"
proof -
  let ?ms = "\<lparr>columns = [''peakid'', ''fname'', ''msuccess''],
        rows = [[PyStr ''EVER'', PyStr ''Tenzing'', PyBool True],
                [PyStr ''EVER'', PyStr ''Edmund'', PyStr ''Y''],
                [PyStr ''LHOT'', PyStr ''Tenzing'', PyStr ''TRUE''],
                [PyStr ''LHOT'', PyStr ''George'', PyStr ''no''],
                [PyStr ''LHOT'', PyStr ''George'', PyFloat 1],
                [PyStr ''LHOT'', PyStr ''George'', PyNaN]]\<rparr>"
  have wf: "wf_frame ?ms" by (simp add: wf_frame_def)
  have run: "most_successful ?ms = Inr (Metric (PyStr ''Tenzing''))"
    by code_simp
  have nc: "name_cols ?ms = [''fname'']" by code_simp
  have sc: "success_cols ?ms = [''msuccess'']" by code_simp
  have ot: "one_type (map (\<lambda>r. cell_of ?ms r (hd (name_cols ?ms))) (rows ?ms))"
    unfolding nc by (simp add: one_type_def cell_of_def)
  from most_successful_max [of ?ms "PyStr ''Tenzing''"] wf ot run
  obtain name_col success_col names where
    a: "name_cols ?ms = name_col # tl (name_cols ?ms)"
    and b: "success_cols ?ms = success_col # tl (success_cols ?ms)"
    and c: "names = map (\<lambda>r. cell_of ?ms r name_col)
                     (filter (\<lambda>r. lower (py_str (cell_of ?ms r success_col)) \<in> {''true'', ''1'', ''y'', ''yes''})
                        (rows ?ms))"
    and d: "PyStr ''Tenzing'' \<in> set names"
    and e: "\<forall>k'. k' = PyNaN \<or> count_list names k' \<le> count_list names (PyStr ''Tenzing'')"
    by blast
  from a nc have n: "name_col = ''fname''" by simp
  from b sc have s: "success_col = ''msuccess''" by simp
  have "map (\<lambda>r. cell_of ?ms r ''fname'')
          (filter (\<lambda>r. lower (py_str (cell_of ?ms r ''msuccess'')) \<in> {''true'', ''1'', ''y'', ''yes''}) (rows ?ms))
        = [PyStr ''Tenzing'', PyStr ''Edmund'', PyStr ''Tenzing'']"
    by code_simp
  with c n s have "names = [PyStr ''Tenzing'', PyStr ''Edmund'', PyStr ''Tenzing'']"
    by simp
  with wf run d e show ?thesis by simp
qed

subsection \<open>Climbing trends over time\<close>

lemma distinct_unique: "distinct (unique xs)"
  by (simp add: unique_def)

lemma set_insort_cell: "set (insort_cell x xs) = insert x (set xs)"
  by (induction xs) auto

lemma set_sort_cells: "set (sort_cells xs) = set xs"
  by (induction xs) (simp_all add: sort_cells_def set_insort_cell)

lemma distinct_insort_cell: "distinct (insort_cell x xs) = (x \<notin> set xs \<and> distinct xs)"
  by (induction xs) (auto simp: set_insort_cell)

lemma distinct_sort_cells: "distinct (sort_cells xs) = distinct xs"
  by (induction xs) (simp_all add: sort_cells_def distinct_insort_cell set_sort_cells [unfolded sort_cells_def])

lemma group_of_col:
  "group_of k (map f xs) (map g xs) = map g (filter (\<lambda>x. f x = k) xs)"
  by (induction xs) (simp_all add: group_of_def)

lemma length_dropna_map:
  "length (dropna (map g xs)) = length (filter (\<lambda>x. g x \<noteq> PyNaN) xs)"
  by (induction xs) (simp_all add: dropna_def)

lemma length_filter_map:
  "length (filter Q (map g xs)) = length (filter (\<lambda>x. Q (g x)) xs)"
  by (induction xs) simp_all

lemma yearly_summary_rows:
  assumes "''year'' \<in> set (columns ex)" "''expid'' \<in> set (columns ex)"
    "''success1'' \<in> set (columns ex)"
  shows "yearly_summary ex =
    Inr \<lparr>columns = [''year'', ''total_expeditions'', ''successful_expeditions''],
         rows = map (\<lambda>y.
           [y,
            PyInt (int (length (filter (\<lambda>r. cell_of ex r ''year'' = y \<and> cell_of ex r ''expid'' \<noteq> PyNaN) (rows ex)))),
            PyInt (int (length (filter (\<lambda>r. cell_of ex r ''year'' = y
                       \<and> cell_of ex r ''success1'' = PyStr ''success'') (rows ex))))])
           (sort_cells (unique (dropna (map (\<lambda>r. cell_of ex r ''year'') (rows ex)))))\<rparr>"
proof -
  have a: "length (dropna (group_of y (map (\<lambda>r. cell_of ex r ''year'') (rows ex))
              (map (\<lambda>r. cell_of ex r ''expid'') (rows ex))))
        = length (filter (\<lambda>r. cell_of ex r ''year'' = y \<and> cell_of ex r ''expid'' \<noteq> PyNaN) (rows ex))" for y
    by (simp add: group_of_col length_dropna_map conj_commute)
  have b: "length (filter (\<lambda>x. py_eq x (PyStr ''success''))
              (group_of y (map (\<lambda>r. cell_of ex r ''year'') (rows ex))
                 (map (\<lambda>r. cell_of ex r ''success1'') (rows ex))))
        = length (filter (\<lambda>r. cell_of ex r ''year'' = y
                       \<and> cell_of ex r ''success1'' = PyStr ''success'') (rows ex))" for y
    by (simp add: group_of_col length_filter_map py_eq_str conj_commute)
  show ?thesis
    using assms by (simp add: yearly_summary_def getitem_cell_of a b)
qed


text \<open>
  C6. For the expeditions (2000, success), (2000, failure), (2001, success) the long-form
  series holds exactly the entries (2000, total_expeditions, 2),
  (2001, total_expeditions, 1), (2000, successful_expeditions, 1) and
  (2001, successful_expeditions, 1). In general, for an expedition table with its
  \<^verbatim>\<open>year\<close>, \<^verbatim>\<open>expid\<close> and \<^verbatim>\<open>success1\<close> columns, the series has for each distinct non-null
  year one entry with the number of the year's rows (those with an expedition identifier)
  and one entry with the number of the year's rows whose outcome code is the literal
  "success".
\<close>

theorem trend_data_series:
  "trend_data
       \<lparr>columns = [''expid'', ''year'', ''success1''],
        rows = [[PyStr ''a'', PyInt 2000, PyStr ''success''],
                [PyStr ''b'', PyInt 2000, PyStr ''failure''],
                [PyStr ''c'', PyInt 2001, PyStr ''success'']]\<rparr>
     = Inr (Metric \<lparr>columns = [''year'', ''Metric'', ''Count''],
          rows =
            [[PyInt 2000, PyStr ''total_expeditions'', PyInt 2],
             [PyInt 2001, PyStr ''total_expeditions'', PyInt 1],
             [PyInt 2000, PyStr ''successful_expeditions'', PyInt 1],
             [PyInt 2001, PyStr ''successful_expeditions'', PyInt 1]]\<rparr>)
   \<and> (''year'' \<in> set (columns ex) \<and> ''expid'' \<in> set (columns ex) \<and> ''success1'' \<in> set (columns ex) \<longrightarrow>
        (\<exists>years.
           distinct years
         \<and> set years = set (dropna (map (\<lambda>r. cell_of ex r ''year'') (rows ex)))
         \<and> trend_data ex = Inr (Metric \<lparr>columns = [''year'', ''Metric'', ''Count''],
             rows =
               map (\<lambda>y. [y, PyStr ''total_expeditions'',
                      PyInt (int (length (filter (\<lambda>r. cell_of ex r ''year'' = y
                                     \<and> cell_of ex r ''expid'' \<noteq> PyNaN) (rows ex))))]) years
               @ map (\<lambda>y. [y, PyStr ''successful_expeditions'',
                      PyInt (int (length (filter (\<lambda>r. cell_of ex r ''year'' = y
                                     \<and> cell_of ex r ''success1'' = PyStr ''success'') (rows ex))))]) years\<rparr>)))"
proof -
  have ex1: "trend_data
       \<lparr>columns = [''expid'', ''year'', ''success1''],
        rows = [[PyStr ''a'', PyInt 2000, PyStr ''success''],
                [PyStr ''b'', PyInt 2000, PyStr ''failure''],
                [PyStr ''c'', PyInt 2001, PyStr ''success'']]\<rparr>
     = Inr (Metric \<lparr>columns = [''year'', ''Metric'', ''Count''],
          rows =
            [[PyInt 2000, PyStr ''total_expeditions'', PyInt 2],
             [PyInt 2001, PyStr ''total_expeditions'', PyInt 1],
             [PyInt 2000, PyStr ''successful_expeditions'', PyInt 1],
             [PyInt 2001, PyStr ''successful_expeditions'', PyInt 1]]\<rparr>)"
    by code_simp
  have gen: "\<exists>years.
           distinct years
         \<and> set years = set (dropna (map (\<lambda>r. cell_of ex r ''year'') (rows ex)))
         \<and> trend_data ex = Inr (Metric \<lparr>columns = [''year'', ''Metric'', ''Count''],
             rows =
               map (\<lambda>y. [y, PyStr ''total_expeditions'',
                      PyInt (int (length (filter (\<lambda>r. cell_of ex r ''year'' = y
                                     \<and> cell_of ex r ''expid'' \<noteq> PyNaN) (rows ex))))]) years
               @ map (\<lambda>y. [y, PyStr ''successful_expeditions'',
                      PyInt (int (length (filter (\<lambda>r. cell_of ex r ''year'' = y
                                     \<and> cell_of ex r ''success1'' = PyStr ''success'') (rows ex))))]) years\<rparr>)"
    if cols: "''year'' \<in> set (columns ex)" "''expid'' \<in> set (columns ex)" "''success1'' \<in> set (columns ex)"
  proof -
    let ?years = "sort_cells (unique (dropna (map (\<lambda>r. cell_of ex r ''year'') (rows ex))))"
    have d: "distinct ?years" by (simp add: distinct_sort_cells distinct_unique)
    have s: "set ?years = set (dropna (map (\<lambda>r. cell_of ex r ''year'') (rows ex)))"
      by (simp add: set_sort_cells set_unique)
    have t: "trend_data ex = Inr (Metric \<lparr>columns = [''year'', ''Metric'', ''Count''],
             rows =
               map (\<lambda>y. [y, PyStr ''total_expeditions'',
                      PyInt (int (length (filter (\<lambda>r. cell_of ex r ''year'' = y
                                     \<and> cell_of ex r ''expid'' \<noteq> PyNaN) (rows ex))))]) ?years
               @ map (\<lambda>y. [y, PyStr ''successful_expeditions'',
                      PyInt (int (length (filter (\<lambda>r. cell_of ex r ''year'' = y
                                     \<and> cell_of ex r ''success1'' = PyStr ''success'') (rows ex))))]) ?years\<rparr>)"
      using cols by (simp add: trend_data_def yearly_summary_rows melt_def cell_of_def comp_def)
    from d s t show ?thesis by blast
  qed
  from ex1 gen show ?thesis by blast
qed

theorem trend_data_series_witness:
  "''year'' \<in> set (columns \<lparr>columns = [''year'', ''expid'', ''success1''],
        rows = [[PyInt 1953, PyStr ''EVER53101'', PyStr ''success''],
                [PyNaN, PyStr ''EVER24101'', PyStr ''unknown'']]\<rparr>)
   \<and> (\<exists>td. trend_data \<lparr>columns = [''year'', ''expid'', ''success1''],
        rows = [[PyInt 1953, PyStr ''EVER53101'', PyStr ''success''],
                [PyNaN, PyStr ''EVER24101'', PyStr ''unknown'']]\<rparr> = Inr (Metric td)
         \<and> rows td = [[PyInt 1953, PyStr ''total_expeditions'', PyInt 1],
                      [PyInt 1953, PyStr ''successful_expeditions'', PyInt 1]])"
proof -
  let ?ex = "\<lparr>columns = [''year'', ''expid'', ''success1''],
        rows = [[PyInt 1953, PyStr ''EVER53101'', PyStr ''success''],
                [PyNaN, PyStr ''EVER24101'', PyStr ''unknown'']]\<rparr>"
  have cols: "''year'' \<in> set (columns ?ex) \<and> ''expid'' \<in> set (columns ?ex)
      \<and> ''success1'' \<in> set (columns ?ex)" by simp
  from trend_data_series [of ?ex] cols
  obtain years where d: "distinct years"
    and s: "set years = set (dropna (map (\<lambda>r. cell_of ?ex r ''year'') (rows ?ex)))"
    and t: "trend_data ?ex = Inr (Metric \<lparr>columns = [''year'', ''Metric'', ''Count''],
             rows =
               map (\<lambda>y. [y, PyStr ''total_expeditions'',
                      PyInt (int (length (filter (\<lambda>r. cell_of ?ex r ''year'' = y
                                     \<and> cell_of ?ex r ''expid'' \<noteq> PyNaN) (rows ?ex))))]) years
               @ map (\<lambda>y. [y, PyStr ''successful_expeditions'',
                      PyInt (int (length (filter (\<lambda>r. cell_of ?ex r ''year'' = y
                                     \<and> cell_of ?ex r ''success1'' = PyStr ''success'') (rows ?ex))))]) years\<rparr>)"
    by blast
  from s have "set years = {PyInt 1953}" by (simp add: dropna_def cell_of_def)
  with d have "years = [PyInt 1953]"
    by (metis distinct.simps(2) distinct_singleton empty_set insert_ident list.exhaust list.set(2) singleton_insert_inj_eq' set_empty)
  with t cols show ?thesis by (simp add: cell_of_def)
qed

subsection \<open>Top 5 most climbed peaks\<close>

lemma sorted_value_counts: "sorted_wrt (\<lambda>a b. snd b \<le> snd a) (value_counts xs)"
proof -
  have "sorted (map (\<lambda>kv. - int (snd kv)) (value_counts xs))"
    by (simp add: value_counts_def Let_def)
  then show ?thesis by (simp add: sorted_map)
qed

lemma length_value_counts: "length (value_counts xs) = nunique xs"
  by (simp add: value_counts_def Let_def nunique_def)

lemma value_counts_entry:
  "(k, n) \<in> set (value_counts xs) \<Longrightarrow> k \<in> set (dropna xs) \<and> n = count_list xs k"
proof -
  assume "(k, n) \<in> set (value_counts xs)"
  then have k: "k \<in> set (dropna xs)" and n: "n = count_list (dropna xs) k"
    by (auto simp: set_value_counts)
  from k have "k \<noteq> PyNaN" by (simp add: dropna_def)
  with k n show ?thesis by (simp add: count_list_dropna)
qed

lemma sorted_wrt_all: "(\<And>x y. x \<in> set xs \<Longrightarrow> y \<in> set xs \<Longrightarrow> P x y) \<Longrightarrow> sorted_wrt P xs"
  by (induction xs) auto

lemma merge_row_cells:
  "x \<in> set (merge_row left right r) \<Longrightarrow> \<exists>nm. x = r @ [nm]"
  by (auto simp: merge_row_def split: list.splits)

lemma merge_row_nonempty: "merge_row left right r \<noteq> []"
  by (auto simp: merge_row_def split: list.splits)

lemma length_filter_key:
  "distinct (dropna (map fst right)) \<Longrightarrow> k \<noteq> PyNaN \<Longrightarrow> length (filter (\<lambda>p. fst p = k) right) \<le> 1"
proof (induction right)
  case Nil
  then show ?case by simp
next
  case (Cons p right)
  show ?case
  proof (cases "fst p = k")
    case True
    with Cons.prems have "k \<notin> set (dropna (map fst right))"
      by (simp add: dropna_def)
    with Cons.prems(2) have "k \<notin> fst ` set right"
      by (simp add: dropna_def)
    then have "filter (\<lambda>q. fst q = k) right = []"
      unfolding filter_empty_conv by (metis imageI)
    with True show ?thesis by simp
  next
    case False
    with Cons show ?thesis by (simp add: dropna_def split: if_splits)
  qed
qed

lemma length_merge_row_distinct:
  assumes "distinct (dropna (map fst right))" "cell_of left r ''peakid'' \<noteq> PyNaN"
  shows "length (merge_row left right r) = 1"
  using length_filter_key [OF assms]
  by (cases "filter (\<lambda>p. fst p = cell_of left r ''peakid'') right") (auto simp: merge_row_def)

lemma length_merged_ge: "length rs \<le> length (concat (map (merge_row left right) rs))"
proof (induction rs)
  case Nil
  then show ?case by simp
next
  case (Cons r rs)
  have "1 \<le> length (merge_row left right r)"
    using merge_row_nonempty [of left right r] by (cases "merge_row left right r") auto
  with Cons show ?case by simp
qed

lemma length_merged_distinct:
  "distinct (dropna (map fst right)) \<Longrightarrow> \<forall>r \<in> set rs. cell_of left r ''peakid'' \<noteq> PyNaN
     \<Longrightarrow> length (concat (map (merge_row left right) rs)) = length rs"
  by (induction rs) (simp_all add: length_merge_row_distinct)

lemma merged_rows:
  "x \<in> set (concat (map (merge_row left right) rs)) \<Longrightarrow> \<exists>r nm. r \<in> set rs \<and> x = r @ [nm]"
  by (auto dest: merge_row_cells)

lemma sorted_merged:
  assumes "sorted_wrt Q rs" and "\<forall>r \<in> set rs. Q r r"
  shows "sorted_wrt (\<lambda>x y. \<exists>r r' a b. x = r @ [a] \<and> y = r' @ [b] \<and> Q r r')
           (concat (map (merge_row left right) rs))"
  using assms
proof (induction rs)
  case Nil
  then show ?case by simp
next
  case (Cons r rs)
  have own: "sorted_wrt (\<lambda>x y. \<exists>r r' a b. x = r @ [a] \<and> y = r' @ [b] \<and> Q r r')
      (merge_row left right r)"
  proof (rule sorted_wrt_all)
    fix x y
    assume "x \<in> set (merge_row left right r)" "y \<in> set (merge_row left right r)"
    then obtain a b where "x = r @ [a]" "y = r @ [b]"
      by (auto dest!: merge_row_cells)
    with Cons.prems(2) show "\<exists>r r' a b. x = r @ [a] \<and> y = r' @ [b] \<and> Q r r'"
      by auto
  qed
  have cross: "\<exists>r r' a b. x = r @ [a] \<and> y = r' @ [b] \<and> Q r r'"
    if "x \<in> set (merge_row left right r)" "y \<in> set (concat (map (merge_row left right) rs))" for x y
  proof -
    from that(1) obtain a where x: "x = r @ [a]" by (auto dest: merge_row_cells)
    from merged_rows [OF that(2)] obtain r' b where r': "r' \<in> set rs" and y: "y = r' @ [b]"
      by blast
    from Cons.prems(1) r' have "Q r r'" by auto
    with x y show ?thesis by blast
  qed
  from Cons own cross show ?case
    by (simp add: sorted_wrt_append)
qed


text \<open>
  C7, as the spec states it: for every member table with its \<^verbatim>\<open>peakid\<close> column and every
  peak table, the result is a list of at most 5 entries in descending order of count, and
  its length is the number of distinct member identifiers when that is less than 5. It
  fails on four peak tables: with two rows for one identifier the left join gives two
  entries for the one identifier of Member; without a \<^verbatim>\<open>peakid\<close> column the block shows
  its error message and no list; without a \<^verbatim>\<open>pkname\<close> column it raises \<^verbatim>\<open>KeyError\<close>;
  and with string identifiers against the integer identifiers of Member the merge raises
  \<^verbatim>\<open>ValueError\<close>.
\<close>

theorem top5_counterexample:
  "top5 \<lparr>columns = [''peakid''], rows = [[PyStr ''EVER'']]\<rparr>
        \<lparr>columns = [''peakid'', ''pkname''],
         rows = [[PyStr ''EVER'', PyStr ''Everest''], [PyStr ''EVER'', PyStr ''Sagarmatha'']]\<rparr>
     = Inr (Metric \<lparr>columns = [''peakid'', ''num_climbers'', ''pkname''],
                    rows = [[PyStr ''EVER'', PyInt 1, PyStr ''Everest''],
                            [PyStr ''EVER'', PyInt 1, PyStr ''Sagarmatha'']]\<rparr>)
   \<and> nunique [PyStr ''EVER''] = 1
   \<and> top5 \<lparr>columns = [''peakid''], rows = [[PyStr ''EVER'']]\<rparr>
        \<lparr>columns = [''pkname''], rows = [[PyStr ''Everest'']]\<rparr>
     = Inr (Notice RequiredColumnsMissing)
   \<and> top5 \<lparr>columns = [''peakid''], rows = [[PyStr ''EVER'']]\<rparr>
        \<lparr>columns = [''peakid''], rows = [[PyStr ''EVER'']]\<rparr>
     = Inl (KeyError [''pkname''])
   \<and> top5 \<lparr>columns = [''peakid''], rows = [[PyInt 1], [PyInt 2]]\<rparr>
        \<lparr>columns = [''peakid'', ''pkname''], rows = [[PyStr ''EVER'', PyStr ''Everest'']]\<rparr>
     = Inl ValueError"
  by code_simp

text \<open>
  C7, amended: for every member table and every peak table (frames with pairwise distinct
  labels) with their \<^verbatim>\<open>peakid\<close> columns, which hold strings and nulls, the peak table
  with its \<^verbatim>\<open>pkname\<close> column and, unless it has no rows, with an identifier, the result is
  a list of at most 5 entries; each entry carries a non-null identifier of Member and the
  number of member rows with it, and the entries are in descending order of that number.
  When the non-null identifiers of Peak are pairwise distinct (the unique key of the data
  model), the length of the list is the smaller of 5 and the number of distinct non-null
  member identifiers.
\<close>

theorem top5_shape:
  assumes "wf_frame ms" and "wf_frame pk"
    and gm: "getitem ms ''peakid'' = Inr mp"
    and gp: "getitem pk ''peakid'' = Inr pids"
    and pkname: "''pkname'' \<in> set (columns pk)"
    and sm: "str_cells mp"
    and sp: "str_cells pids"
    and some: "pids = [] \<or> (\<exists>s. PyStr s \<in> set pids)"
  shows "\<exists>t.
           top5 ms pk = Inr (Metric t)
         \<and> columns t = [''peakid'', ''num_climbers'', ''pkname'']
         \<and> length (rows t) \<le> 5
         \<and> (\<forall>r \<in> set (rows t). r ! 0 \<in> set mp \<and> r ! 0 \<noteq> PyNaN
                \<and> r ! 1 = PyInt (int (count_list mp (r ! 0))))
         \<and> sorted_wrt (\<lambda>r r'. count_list mp (r' ! 0) \<le> count_list mp (r ! 0)) (rows t)
         \<and> (distinct (filter (\<lambda>c. c \<noteq> PyNaN) pids) \<longrightarrow>
              length (rows t) = min 5 (card (set mp - {PyNaN})))"
proof -
  from gm have cm: "''peakid'' \<in> set (columns ms)" by (rule getitem_Inr_label)
  from gp have cp: "''peakid'' \<in> set (columns pk)" by (rule getitem_Inr_label)
  from gm cm have mp_def: "mp = map (\<lambda>r. cell_of ms r ''peakid'') (rows ms)"
    by (simp add: getitem_cell_of)
  from gp cp have pids_def: "pids = map (\<lambda>r. cell_of pk r ''peakid'') (rows pk)"
    by (simp add: getitem_cell_of)
  define right where "right = zip pids (map (\<lambda>r. cell_of pk r ''pkname'') (rows pk))"
  define top_peaks where
    "top_peaks = \<lparr>columns = [''peakid'', ''num_climbers''],
                  rows = map (\<lambda>kn. [fst kn, PyInt (int (snd kn))]) (value_counts mp)\<rparr>"
  define merged where "merged = concat (map (merge_row top_peaks right) (rows top_peaks))"
  define t where "t = \<lparr>columns = [''peakid'', ''num_climbers'', ''pkname''], rows = take 5 merged\<rparr>"
  have g3: "getitem2 pk ''peakid'' ''pkname'' = Inr right"
    using cp pkname by (simp add: getitem2_def getitem_cell_of right_def pids_def)
  have fst_right: "map fst right = pids"
    by (simp add: right_def pids_def)
  have lk: "getitem top_peaks ''peakid'' = Inr (map fst (value_counts mp))"
    by (simp add: getitem_def top_peaks_def comp_def)
  have keys_str: "\<exists>s. k = PyStr s" if "k \<in> set (map fst (value_counts mp))" for k
  proof -
    from that have "k \<in> set (dropna mp)" by (auto simp: set_value_counts)
    then have "k \<in> set mp" "k \<noteq> PyNaN" by (auto simp: dropna_def)
    with sm show ?thesis by (cases k) (auto simp: str_cells_def list_all_iff)
  qed
  have no_clash: "\<not> keys_clash (map fst (value_counts mp)) pids"
  proof -
    have "\<not> numeric_column (map fst (value_counts mp))"
    proof
      assume n: "numeric_column (map fst (value_counts mp))"
      then obtain k where k: "k \<in> set (map fst (value_counts mp))"
        by (cases "map fst (value_counts mp)") (auto simp: numeric_column_def)
      from keys_str [OF k] obtain s where "k = PyStr s" ..
      with n k show False by (fastforce simp: numeric_column_def list_all_iff)
    qed
    moreover have "\<not> numeric_column pids"
    proof
      assume n: "numeric_column pids"
      then have "pids \<noteq> []" by (simp add: numeric_column_def)
      with some obtain s where "PyStr s \<in> set pids" by blast
      with n show False by (auto simp: numeric_column_def list_all_iff)
    qed
    ultimately show ?thesis by (simp add: keys_clash_def)
  qed
  have run: "top5 ms pk = Inr (Metric t)"
    using cm cp gm g3 lk no_clash
    by (simp add: top5_def top_peaks_counts_def reset_index_def set_columns_def merge_peaks_def
        head_def t_def merged_def top_peaks_def fst_right)
  have len: "length (rows t) \<le> 5" by (simp add: t_def)
  have left_row: "\<exists>k n. (k, n) \<in> set (value_counts mp) \<and> r = [k, PyInt (int n)]"
    if "r \<in> set (rows top_peaks)" for r
    using that by (auto simp: top_peaks_def)
  have key: "cell_of top_peaks r ''peakid'' = r ! 0" for r
    by (simp add: cell_of_def top_peaks_def)
  have left_fact: "r ! 0 \<in> set (dropna mp) \<and> r ! 1 = PyInt (int (count_list mp (r ! 0))) \<and> length r = 2"
    if "r \<in> set (rows top_peaks)" for r
  proof -
    from left_row [OF that] obtain k n where "(k, n) \<in> set (value_counts mp)" and r: "r = [k, PyInt (int n)]"
      by blast
    with value_counts_entry [of k n mp] show ?thesis by simp
  qed
  have row: "r ! 0 \<in> set (dropna mp) \<and> r ! 1 = PyInt (int (count_list mp (r ! 0)))"
    if "r \<in> set merged" for r
  proof -
    from merged_rows [OF that [unfolded merged_def]]
    obtain l nm where l: "l \<in> set (rows top_peaks)" and r: "r = l @ [nm]"
      by blast
    from left_fact [OF l] r show ?thesis by (simp add: nth_append)
  qed
  have rows_t: "r ! 0 \<in> set (dropna mp) \<and> r ! 1 = PyInt (int (count_list mp (r ! 0)))"
    if "r \<in> set (rows t)" for r
    using that row [of r] by (auto simp: t_def dest: in_set_takeD)
  let ?Q = "\<lambda>r r'. count_list mp (r' ! 0) \<le> count_list mp (r ! 0)"
  have "sorted_wrt (\<lambda>a b. ?Q [fst a, PyInt (int (snd a))] [fst b, PyInt (int (snd b))]) (value_counts mp)"
  proof (rule sorted_wrt_mono_rel [OF _ sorted_value_counts])
    fix a b
    assume "a \<in> set (value_counts mp)" "b \<in> set (value_counts mp)" "snd b \<le> snd a"
    with value_counts_entry [of "fst a" "snd a" mp] value_counts_entry [of "fst b" "snd b" mp]
    show "?Q [fst a, PyInt (int (snd a))] [fst b, PyInt (int (snd b))]" by simp
  qed
  then have sl: "sorted_wrt ?Q (rows top_peaks)"
    by (simp add: top_peaks_def sorted_wrt_map)
  have "sorted_wrt (\<lambda>x y. \<exists>r r' a b. x = r @ [a] \<and> y = r' @ [b] \<and> ?Q r r') merged"
    unfolding merged_def by (rule sorted_merged [OF sl]) simp
  then have "sorted_wrt ?Q merged"
  proof (rule sorted_wrt_mono_rel [rotated])
    fix x y
    assume x: "x \<in> set merged" and y: "y \<in> set merged"
      and "\<exists>r r' a b. x = r @ [a] \<and> y = r' @ [b] \<and> ?Q r r'"
    then obtain r r' a b where xe: "x = r @ [a]" and ye: "y = r' @ [b]" and q: "?Q r r'"
      by blast
    from merged_rows [OF x [unfolded merged_def]]
    obtain l nm where "l \<in> set (rows top_peaks)" "x = l @ [nm]"
      by blast
    with xe left_fact [of l] have "r \<in> set (rows top_peaks)" by simp
    from left_fact [OF this] have lr: "length r = 2" by simp
    from merged_rows [OF y [unfolded merged_def]]
    obtain l' nm' where "l' \<in> set (rows top_peaks)" "y = l' @ [nm']"
      by blast
    with ye left_fact [of l'] have "r' \<in> set (rows top_peaks)" by simp
    from left_fact [OF this] have lr': "length r' = 2" by simp
    from q xe ye lr lr' show "?Q x y" by (simp add: nth_append)
  qed
  then have srt: "sorted_wrt ?Q (rows t)"
    by (simp add: t_def)
  have dist: "length (rows t) = min 5 (card (set mp - {PyNaN}))"
    if "distinct (filter (\<lambda>c. c \<noteq> PyNaN) pids)"
  proof -
    from that have that: "distinct (dropna pids)" by (simp add: dropna_def)
    have "\<forall>r \<in> set (rows top_peaks). cell_of top_peaks r ''peakid'' \<noteq> PyNaN"
      using left_fact by (auto simp: key dropna_def)
    with that have "length merged = length (rows top_peaks)"
      unfolding merged_def by (intro length_merged_distinct) (simp_all add: fst_right)
    then show ?thesis
      by (simp add: t_def top_peaks_def length_value_counts min.commute nunique_card_set)
  qed
  have ct: "columns t = [''peakid'', ''num_climbers'', ''pkname'']" by (simp add: t_def)
  have rows_t': "r ! 0 \<in> set mp \<and> r ! 0 \<noteq> PyNaN
      \<and> r ! 1 = PyInt (int (count_list mp (r ! 0)))" if "r \<in> set (rows t)" for r
    using rows_t [OF that] by (simp add: set_dropna)
  from run ct len rows_t' srt dist show ?thesis by blast
qed



theorem top5_shape_witness:
  "wf_frame \<lparr>columns = [''peakid'', ''fname''],
        rows = [[PyStr ''LHOT'', PyStr ''Ernst''], [PyStr ''EVER'', PyStr ''Tenzing''],
                [PyNaN, PyStr ''George''], [PyStr ''EVER'', PyStr ''Edmund'']]\<rparr>
   \<and> str_cells [PyStr ''LHOT'', PyStr ''EVER'', PyNaN, PyStr ''EVER'']
   \<and> str_cells [PyStr ''EVER'', PyStr ''AMAD'']
   \<and> top5 \<lparr>columns = [''peakid'', ''fname''],
        rows = [[PyStr ''LHOT'', PyStr ''Ernst''], [PyStr ''EVER'', PyStr ''Tenzing''],
                [PyNaN, PyStr ''George''], [PyStr ''EVER'', PyStr ''Edmund'']]\<rparr>
       \<lparr>columns = [''peakid'', ''pkname''],
        rows = [[PyStr ''EVER'', PyStr ''Everest''], [PyStr ''AMAD'', PyStr ''Ama Dablam'']]\<rparr>
     = Inr (Metric \<lparr>columns = [''peakid'', ''num_climbers'', ''pkname''],
                    rows = [[PyStr ''EVER'', PyInt 2, PyStr ''Everest''],
                            [PyStr ''LHOT'', PyInt 1, PyNaN]]\<rparr>)
   \<and> (\<exists>t. top5 \<lparr>columns = [''peakid'', ''fname''],
        rows = [[PyStr ''LHOT'', PyStr ''Ernst''], [PyStr ''EVER'', PyStr ''Tenzing''],
                [PyNaN, PyStr ''George''], [PyStr ''EVER'', PyStr ''Edmund'']]\<rparr>
       \<lparr>columns = [''peakid'', ''pkname''],
        rows = [[PyStr ''EVER'', PyStr ''Everest''], [PyStr ''AMAD'', PyStr ''Ama Dablam'']]\<rparr>
          = Inr (Metric t)
        \<and> length (rows t) = 2)"
proof -
  let ?ms = "\<lparr>columns = [''peakid'', ''fname''],
        rows = [[PyStr ''LHOT'', PyStr ''Ernst''], [PyStr ''EVER'', PyStr ''Tenzing''],
                [PyNaN, PyStr ''George''], [PyStr ''EVER'', PyStr ''Edmund'']]\<rparr>"
  let ?pk = "\<lparr>columns = [''peakid'', ''pkname''],
        rows = [[PyStr ''EVER'', PyStr ''Everest''], [PyStr ''AMAD'', PyStr ''Ama Dablam'']]\<rparr>"
  have w1: "wf_frame ?ms" by (simp add: wf_frame_def)
  have w2: "wf_frame ?pk" by (simp add: wf_frame_def)
  have c3: "''pkname'' \<in> set (columns ?pk)" by simp
  have g1: "getitem ?ms ''peakid'' = Inr [PyStr ''LHOT'', PyStr ''EVER'', PyNaN, PyStr ''EVER'']"
    by (simp add: getitem_def)
  have g2: "getitem ?pk ''peakid'' = Inr [PyStr ''EVER'', PyStr ''AMAD'']"
    by (simp add: getitem_def)
  have s1: "str_cells [PyStr ''LHOT'', PyStr ''EVER'', PyNaN, PyStr ''EVER'']"
    by (simp add: str_cells_def)
  have s2: "str_cells [PyStr ''EVER'', PyStr ''AMAD'']" by (simp add: str_cells_def)
  have s3: "[PyStr ''EVER'', PyStr ''AMAD''] = [] \<or> (\<exists>s. PyStr s \<in> set [PyStr ''EVER'', PyStr ''AMAD''])"
    by auto
  have ev: "top5 ?ms ?pk = Inr (Metric \<lparr>columns = [''peakid'', ''num_climbers'', ''pkname''],
                    rows = [[PyStr ''EVER'', PyInt 2, PyStr ''Everest''],
                            [PyStr ''LHOT'', PyInt 1, PyNaN]]\<rparr>)"
    by code_simp
  from top5_shape [OF w1 w2 g1 g2 c3 s1 s2 s3]
  obtain t where run: "top5 ?ms ?pk = Inr (Metric t)"
    and len: "distinct (filter (\<lambda>c. c \<noteq> PyNaN) [PyStr ''EVER'', PyStr ''AMAD'']) \<longrightarrow>
        length (rows t)
          = min 5 (card (set [PyStr ''LHOT'', PyStr ''EVER'', PyNaN, PyStr ''EVER''] - {PyNaN}))"
    by auto
  have "card (set [PyStr ''LHOT'', PyStr ''EVER'', PyNaN, PyStr ''EVER''] - {PyNaN}) = 2"
    by (simp add: insert_Diff_if)
  with len have "length (rows t) = 2" by simp
  with run w1 s1 s2 ev show ?thesis by blast
qed

subsection \<open>The sentinel of a missing peak identifier\<close>

lemma index_of_nth: "index_of c cs = Some i \<Longrightarrow> i < length cs \<and> cs ! i = c"
  by (induction cs arbitrary: i) (auto split: if_splits)

lemma columns_fillna: "columns (fillna d df) = columns df"
  by (simp add: fillna_def)

lemma getitem_fillna:
  assumes "list_all (\<lambda>r. length r = length (columns df)) (rows df)"
    and "getitem df c = Inr col"
  shows "getitem (fillna d df) c = Inr (map (fill_cell d c) col)"
proof -
  from assms(2) obtain i where i: "index_of c (columns df) = Some i"
    and col: "col = map (\<lambda>r. r ! i) (rows df)"
    by (auto simp: getitem_def split: option.splits)
  from index_of_nth [OF i] have il: "i < length (columns df)" and ci: "columns df ! i = c"
    by simp_all
  have "map (\<lambda>(c, v). fill_cell d c v) (zip (columns df) r) ! i = fill_cell d c (r ! i)"
    if "r \<in> set (rows df)" for r
  proof -
    from that assms(1) have "length r = length (columns df)" by (simp add: list_all_iff)
    with il ci show ?thesis by simp
  qed
  then show ?thesis
    by (simp add: getitem_def fillna_def i col)
qed

lemma set_dropna_fill:
  "set (dropna (map (\<lambda>v. if v = PyNaN then PyStr u else v) xs))
     = (if PyNaN \<in> set xs then insert (PyStr u) (set (dropna xs)) else set (dropna xs))"
  by (auto simp: dropna_def)

lemma climbed_pct_value:
  assumes "getitem ms ''peakid'' = Inr mp"
    and "getitem pk ''peakid'' = Inr pp"
    and "0 < nunique pp"
  shows "climbed_pct ms pk = Inr (real (nunique mp) / real (nunique pp) * 100)"
  using assms by (simp add: climbed_pct_def py_truediv_def nunique_dropna)

lemma members_load:
  "members (load_data raw) =
     fillna [(''peakid'', PyStr ''UNKNOWN''), (''citizen'', PyStr ''UNKNOWN'')] (strip_columns (members raw))"
  by (simp add: load_data_def)


text \<open>
  C10. After loading, the member rows without a peak identifier carry the sentinel
  "UNKNOWN" (the other cells of the column are as they were read). The sentinel then
  counts as a peak of its own: when some member row had no identifier, "UNKNOWN" is among
  the distinct identifiers that the percentage counts as climbed, so that the numerator is
  the number of distinct identifiers read, with "UNKNOWN" added. And it can appear in the
  ranking of the most climbed peaks, with a null name as no peak has that identifier: it
  does for two member rows of EVER and one without an identifier. (The member table is
  read with labels of ASCII that are pairwise distinct once stripped, and its identifiers
  are of one type.)
\<close>

theorem unknown_sentinel:
  "(ascii_labels (members raw) \<and> wf_frame (strip_columns (members raw))
      \<and> getitem (strip_columns (members raw)) ''peakid'' = Inr mp \<and> one_type mp \<longrightarrow>
      getitem (members (load_data raw)) ''peakid''
        = Inr (map (\<lambda>v. if v = PyNaN then PyStr ''UNKNOWN'' else v) mp)
    \<and> (PyNaN \<in> set mp \<longrightarrow>
         nunique (map (\<lambda>v. if v = PyNaN then PyStr ''UNKNOWN'' else v) mp)
           = card (insert (PyStr ''UNKNOWN'') (set mp - {PyNaN}))
       \<and> (wf_frame pk \<and> getitem pk ''peakid'' = Inr pp \<and> one_type pp
            \<and> 0 < card (set pp - {PyNaN}) \<longrightarrow>
            climbed_pct (members (load_data raw)) pk
              = Inr (real (card (insert (PyStr ''UNKNOWN'') (set mp - {PyNaN})))
                       / real (card (set pp - {PyNaN})) * 100))))
   \<and> top5
        (members (load_data
           \<lparr>exped = \<lparr>columns = [''expid'', ''year'', ''success1''], rows = []\<rparr>,
            members = \<lparr>columns = [''peakid '', ''fname''],
                       rows = [[PyStr ''EVER'', PyStr ''Tenzing''], [PyNaN, PyStr ''George''],
                               [PyStr ''EVER'', PyStr ''Edmund'']]\<rparr>,
            peaks = \<lparr>columns = [''peakid'', ''pkname''], rows = [[PyStr ''EVER'', PyStr ''Everest'']]\<rparr>,
            refer = \<lparr>columns = [], rows = []\<rparr>,
            data_dict = \<lparr>columns = [], rows = []\<rparr>\<rparr>))
        (peaks (load_data
           \<lparr>exped = \<lparr>columns = [''expid'', ''year'', ''success1''], rows = []\<rparr>,
            members = \<lparr>columns = [''peakid '', ''fname''],
                       rows = [[PyStr ''EVER'', PyStr ''Tenzing''], [PyNaN, PyStr ''George''],
                               [PyStr ''EVER'', PyStr ''Edmund'']]\<rparr>,
            peaks = \<lparr>columns = [''peakid'', ''pkname''], rows = [[PyStr ''EVER'', PyStr ''Everest'']]\<rparr>,
            refer = \<lparr>columns = [], rows = []\<rparr>,
            data_dict = \<lparr>columns = [], rows = []\<rparr>\<rparr>))
      = Inr (Metric \<lparr>columns = [''peakid'', ''num_climbers'', ''pkname''],
                     rows = [[PyStr ''EVER'', PyInt 2, PyStr ''Everest''],
                             [PyStr ''UNKNOWN'', PyInt 1, PyNaN]]\<rparr>)"
proof -
  let ?f = "\<lambda>v. if v = PyNaN then PyStr ''UNKNOWN'' else v"
  have gen: "getitem (members (load_data raw)) ''peakid'' = Inr (map ?f mp)
    \<and> (PyNaN \<in> set mp \<longrightarrow>
         nunique (map ?f mp) = card (insert (PyStr ''UNKNOWN'') (set mp - {PyNaN}))
       \<and> (wf_frame pk \<and> getitem pk ''peakid'' = Inr pp \<and> one_type pp
            \<and> 0 < card (set pp - {PyNaN}) \<longrightarrow>
            climbed_pct (members (load_data raw)) pk
              = Inr (real (card (insert (PyStr ''UNKNOWN'') (set mp - {PyNaN})))
                       / real (card (set pp - {PyNaN})) * 100)))"
    if wf: "wf_frame (strip_columns (members raw))"
      and g: "getitem (strip_columns (members raw)) ''peakid'' = Inr mp"
  proof -
    from wf have "list_all (\<lambda>r. length r = length (columns (strip_columns (members raw))))
        (rows (strip_columns (members raw)))"
      by (simp add: wf_frame_def)
    from getitem_fillna [OF this g]
    have "getitem (members (load_data raw)) ''peakid''
        = Inr (map (fill_cell [(''peakid'', PyStr ''UNKNOWN''), (''citizen'', PyStr ''UNKNOWN'')] ''peakid'') mp)"
      by (simp add: members_load)
    moreover have "fill_cell [(''peakid'', PyStr ''UNKNOWN''), (''citizen'', PyStr ''UNKNOWN'')] ''peakid'' = ?f"
      by (rule ext) (simp add: fill_cell_def)
    ultimately have col: "getitem (members (load_data raw)) ''peakid'' = Inr (map ?f mp)"
      by simp
    have nu: "nunique (map ?f mp) = card (insert (PyStr ''UNKNOWN'') (set mp - {PyNaN}))"
      if "PyNaN \<in> set mp"
    proof -
      have "set (dropna (map ?f mp)) = insert (PyStr ''UNKNOWN'') (set mp - {PyNaN})"
        using that by (auto simp: dropna_def)
      then show ?thesis by (simp add: nunique_card)
    qed
    have pct: "climbed_pct (members (load_data raw)) pk
              = Inr (real (card (insert (PyStr ''UNKNOWN'') (set mp - {PyNaN})))
                       / real (card (set pp - {PyNaN})) * 100)"
      if "PyNaN \<in> set mp" "getitem pk ''peakid'' = Inr pp" "0 < card (set pp - {PyNaN})"
    proof -
      from that(3) have "0 < nunique pp" by (simp add: nunique_card_set)
      from climbed_pct_value [OF col that(2) this] nu [OF that(1)]
      show ?thesis by (simp add: nunique_card_set)
    qed
    from col nu pct show ?thesis by blast
  qed
  have ex: "top5
        (members (load_data
           \<lparr>exped = \<lparr>columns = [''expid'', ''year'', ''success1''], rows = []\<rparr>,
            members = \<lparr>columns = [''peakid '', ''fname''],
                       rows = [[PyStr ''EVER'', PyStr ''Tenzing''], [PyNaN, PyStr ''George''],
                               [PyStr ''EVER'', PyStr ''Edmund'']]\<rparr>,
            peaks = \<lparr>columns = [''peakid'', ''pkname''], rows = [[PyStr ''EVER'', PyStr ''Everest'']]\<rparr>,
            refer = \<lparr>columns = [], rows = []\<rparr>,
            data_dict = \<lparr>columns = [], rows = []\<rparr>\<rparr>))
        (peaks (load_data
           \<lparr>exped = \<lparr>columns = [''expid'', ''year'', ''success1''], rows = []\<rparr>,
            members = \<lparr>columns = [''peakid '', ''fname''],
                       rows = [[PyStr ''EVER'', PyStr ''Tenzing''], [PyNaN, PyStr ''George''],
                               [PyStr ''EVER'', PyStr ''Edmund'']]\<rparr>,
            peaks = \<lparr>columns = [''peakid'', ''pkname''], rows = [[PyStr ''EVER'', PyStr ''Everest'']]\<rparr>,
            refer = \<lparr>columns = [], rows = []\<rparr>,
            data_dict = \<lparr>columns = [], rows = []\<rparr>\<rparr>))
      = Inr (Metric \<lparr>columns = [''peakid'', ''num_climbers'', ''pkname''],
                     rows = [[PyStr ''EVER'', PyInt 2, PyStr ''Everest''],
                             [PyStr ''UNKNOWN'', PyInt 1, PyNaN]]\<rparr>)"
    by code_simp
  from gen ex show ?thesis by blast
qed


theorem unknown_sentinel_witness:
  "wf_frame (strip_columns \<lparr>columns = [''peakid '', ''fname''],
             rows = [[PyStr ''EVER'', PyStr ''Tenzing''], [PyNaN, PyStr ''George''],
                     [PyStr ''EVER'', PyStr ''Edmund'']]\<rparr>)
   \<and> ascii_labels \<lparr>columns = [''peakid '', ''fname''],
             rows = [[PyStr ''EVER'', PyStr ''Tenzing''], [PyNaN, PyStr ''George''],
                     [PyStr ''EVER'', PyStr ''Edmund'']]\<rparr>
   \<and> getitem (members (load_data
           \<lparr>exped = \<lparr>columns = [''expid'', ''year'', ''success1''], rows = []\<rparr>,
            members = \<lparr>columns = [''peakid '', ''fname''],
                       rows = [[PyStr ''EVER'', PyStr ''Tenzing''], [PyNaN, PyStr ''George''],
                               [PyStr ''EVER'', PyStr ''Edmund'']]\<rparr>,
            peaks = \<lparr>columns = [''peakid'', ''pkname''], rows = [[PyStr ''EVER'', PyStr ''Everest'']]\<rparr>,
            refer = \<lparr>columns = [], rows = []\<rparr>,
            data_dict = \<lparr>columns = [], rows = []\<rparr>\<rparr>)) ''peakid''
       = Inr [PyStr ''EVER'', PyStr ''UNKNOWN'', PyStr ''EVER'']
   \<and> climbed_pct (members (load_data
           \<lparr>exped = \<lparr>columns = [''expid'', ''year'', ''success1''], rows = []\<rparr>,
            members = \<lparr>columns = [''peakid '', ''fname''],
                       rows = [[PyStr ''EVER'', PyStr ''Tenzing''], [PyNaN, PyStr ''George''],
                               [PyStr ''EVER'', PyStr ''Edmund'']]\<rparr>,
            peaks = \<lparr>columns = [''peakid'', ''pkname''], rows = [[PyStr ''EVER'', PyStr ''Everest'']]\<rparr>,
            refer = \<lparr>columns = [], rows = []\<rparr>,
            data_dict = \<lparr>columns = [], rows = []\<rparr>\<rparr>))
         \<lparr>columns = [''peakid'', ''pkname''], rows = [[PyStr ''EVER'', PyStr ''Everest'']]\<rparr>
       = Inr 200"
proof -
  let ?m = "\<lparr>columns = [''peakid '', ''fname''],
             rows = [[PyStr ''EVER'', PyStr ''Tenzing''], [PyNaN, PyStr ''George''],
                     [PyStr ''EVER'', PyStr ''Edmund'']]\<rparr>"
  let ?pk = "\<lparr>columns = [''peakid'', ''pkname''], rows = [[PyStr ''EVER'', PyStr ''Everest'']]\<rparr>"
  let ?raw = "\<lparr>exped = \<lparr>columns = [''expid'', ''year'', ''success1''], rows = []\<rparr>,
            members = ?m, peaks = ?pk,
            refer = \<lparr>columns = [], rows = []\<rparr>,
            data_dict = \<lparr>columns = [], rows = []\<rparr>\<rparr>"
  let ?mp = "[PyStr ''EVER'', PyNaN, PyStr ''EVER'']"
  have wf: "wf_frame (strip_columns (members ?raw))" by code_simp
  have al: "ascii_labels (members ?raw)" by code_simp
  have wp: "wf_frame ?pk" by (simp add: wf_frame_def)
  have t1: "one_type ?mp" by (simp add: one_type_def)
  have t2: "one_type [PyStr ''EVER'']" by (simp add: one_type_def)
  have g: "getitem (strip_columns (members ?raw)) ''peakid'' = Inr ?mp"
    by code_simp
  have gp: "getitem ?pk ''peakid'' = Inr [PyStr ''EVER'']" by (simp add: getitem_def)
  have np: "set [PyStr ''EVER''] - {PyNaN} = {PyStr ''EVER''}" by simp
  have "{PyStr ''EVER'', PyNaN, PyStr ''EVER''} = {PyStr ''EVER'', PyNaN}" by auto
  then have dn: "card {PyStr ''EVER'', PyNaN, PyStr ''EVER''} = 2" by simp
  from unknown_sentinel [of ?raw ?mp ?pk "[PyStr ''EVER'']"] wf al wp t1 t2 g gp np dn
  have "getitem (members (load_data ?raw)) ''peakid'' = Inr [PyStr ''EVER'', PyStr ''UNKNOWN'', PyStr ''EVER'']"
    and "climbed_pct (members (load_data ?raw)) ?pk = Inr 200"
    by simp_all
  with wf al show ?thesis by simp
qed

subsection \<open>The analysis section\<close>

text \<open>
  C2. The claim: a failure in one of the five outputs never aborts the computation of the
  other four. The code computes the outputs one after the other without handling
  exceptions: on a table set whose Peak table has no rows, the percentage raises
  \<^verbatim>\<open>ZeroDivisionError\<close> after the ranking has been shown, and the run ends there. The
  most successful climber, the trend and the Everest count, each of which has a value on
  these tables, are not computed.
\<close>

theorem analysis_aborts:
  "analysis
     \<lparr>exped = \<lparr>columns = [''expid'', ''year'', ''success1''],
               rows = [[PyStr ''EVER53101'', PyInt 1953, PyStr ''success'']]\<rparr>,
      members = \<lparr>columns = [''peakid'', ''fname'', ''msuccess''],
                 rows = [[PyStr ''EVER'', PyStr ''Tenzing'', PyBool True]]\<rparr>,
      peaks = \<lparr>columns = [''peakid'', ''pkname''], rows = []\<rparr>,
      refer = \<lparr>columns = [], rows = []\<rparr>,
      data_dict = \<lparr>columns = [], rows = []\<rparr>\<rparr>
     = ([Top5 (Metric \<lparr>columns = [''peakid'', ''num_climbers'', ''pkname''],
                       rows = [[PyStr ''EVER'', PyInt 1, PyNaN]]\<rparr>)],
        Some ZeroDivisionError)
   \<and> most_successful
       \<lparr>columns = [''peakid'', ''fname'', ''msuccess''],
        rows = [[PyStr ''EVER'', PyStr ''Tenzing'', PyBool True]]\<rparr>
     = Inr (Metric (PyStr ''Tenzing''))
   \<and> trend_data
       \<lparr>columns = [''expid'', ''year'', ''success1''],
        rows = [[PyStr ''EVER53101'', PyInt 1953, PyStr ''success'']]\<rparr>
     = Inr (Metric \<lparr>columns = [''year'', ''Metric'', ''Count''],
                    rows = [[PyInt 1953, PyStr ''total_expeditions'', PyInt 1],
                            [PyInt 1953, PyStr ''successful_expeditions'', PyInt 1]]\<rparr>)
   \<and> everest_climbers
       \<lparr>columns = [''peakid'', ''fname'', ''msuccess''],
        rows = [[PyStr ''EVER'', PyStr ''Tenzing'', PyBool True]]\<rparr>
       \<lparr>columns = [''peakid'', ''pkname''], rows = []\<rparr>
     = Inr (Metric 0)"
  by code_simp

subsection \<open>The input tables are left as they were\<close>

lemma exec_prefix:
  assumes "writes_fresh V ss" and "n \<le> length h"
    and "\<forall>x \<in> V. \<forall>a. env x = Some a \<longrightarrow> n \<le> a"
    and "exec ss env h = (env', h', r)"
  shows "take n h' = take n h \<and> n \<le> length h' \<and> (\<forall>x \<in> V. \<forall>a. env' x = Some a \<longrightarrow> n \<le> a)"
  using assms
proof (induction ss env h arbitrary: V env' h' r rule: exec.induct)
  case (1 env h)
  then show ?case by simp
next
  case (2 x vs e ss env h)
  show ?case
  proof (cases "frames_of env h vs")
    case (Inl err)
    with 2 show ?thesis by simp
  next
    case (Inr fs)
    show ?thesis
    proof (cases "e fs")
      case (Inl err)
      with Inr 2 show ?thesis by simp
    next
      case (Inr f)
      from 2(2) have wf: "writes_fresh (insert x V) ss" by simp
      from 2(3) have len: "n \<le> length (h @ [f])" by simp
      from 2(3,4) have inv: "\<forall>y \<in> insert x V. \<forall>a. (env(x \<mapsto> length h)) y = Some a \<longrightarrow> n \<le> a"
        by auto
      from 2(5) \<open>frames_of env h vs = Inr fs\<close> Inr
      have run: "exec ss (env(x \<mapsto> length h)) (h @ [f]) = (env', h', r)" by simp
      from 2(1) [OF \<open>frames_of env h vs = Inr fs\<close> Inr wf len inv run] 2(3)
      show ?thesis by simp
    qed
  qed
next
  case (3 x cs ss env h)
  show ?case
  proof (cases "env x")
    case None
    with 3 show ?thesis by simp
  next
    case (Some a)
    show ?thesis
    proof (cases "set_columns cs (h ! a)")
      case (Inl err)
      with Some 3 show ?thesis by simp
    next
      case (Inr f)
      from 3(2) have xV: "x \<in> V" and wf: "writes_fresh V ss" by simp_all
      from xV Some 3(4) have na: "n \<le> a" by blast
      from 3(3) have len: "n \<le> length (h[a := f])" by simp
      from 3(5) Some Inr have run: "exec ss env (h[a := f]) = (env', h', r)" by simp
      from 3(1) [OF Some Inr wf len 3(4) run] na show ?thesis by simp
    qed
  qed
next
  case (4 vs e ss env h)
  show ?case
  proof (cases "frames_of env h vs")
    case (Inl err)
    with 4 show ?thesis by simp
  next
    case (Inr fs)
    show ?thesis
    proof (cases "e fs")
      case None
      from 4(2) have wf: "writes_fresh V ss" by simp
      from 4(5) Inr None have run: "exec ss env h = (env', h', r)" by simp
      from 4(1) [OF Inr None wf 4(3) 4(4) run] show ?thesis .
    next
      case (Some err)
      with Inr 4 show ?thesis by simp
    qed
  qed
next
  case (5 vs c a b ss env h)
  show ?case
  proof (cases "frames_of env h vs")
    case (Inl err)
    with 5 show ?thesis by simp
  next
    case (Inr fs)
    obtain env1 h1 r1 where br: "exec (if c fs then a else b) env h = (env1, h1, r1)"
      by (cases "exec (if c fs then a else b) env h") auto
    from 5(3) have wfb: "writes_fresh V (if c fs then a else b)" and wfs: "writes_fresh V ss"
      by simp_all
    from 5(1) [OF Inr wfb 5(4) 5(5) br]
    have p1: "take n h1 = take n h" and l1: "n \<le> length h1"
      and i1: "\<forall>x \<in> V. \<forall>a. env1 x = Some a \<longrightarrow> n \<le> a" by simp_all
    show ?thesis
    proof (cases r1)
      case None
      with 5(6) Inr br have run: "exec ss env1 h1 = (env', h', r)" by simp
      from 5(2) [OF Inr br [symmetric] refl None wfs l1 i1 run] p1 show ?thesis by simp
    next
      case (Some err)
      with 5(6) Inr br have "env' = env1" "h' = h1" by simp_all
      with p1 l1 i1 show ?thesis by simp
    qed
  qed
qed

lemma exec_env:
  assumes "exec ss env h = (env', h', r)" and "v \<notin> targets ss"
  shows "env' v = env v"
  using assms
proof (induction ss env h arbitrary: env' h' r rule: exec.induct)
  case (1 env h)
  then show ?case by simp
next
  case (2 x vs e ss env h)
  show ?case
  proof (cases "frames_of env h vs")
    case (Inl err)
    with 2 show ?thesis by simp
  next
    case (Inr fs)
    show ?thesis
    proof (cases "e fs")
      case (Inl err)
      with Inr 2 show ?thesis by simp
    next
      case (Inr f)
      from 2(2) \<open>frames_of env h vs = Inr fs\<close> Inr
      have run: "exec ss (env(x \<mapsto> length h)) (h @ [f]) = (env', h', r)" by simp
      from 2(3) have "v \<noteq> x" "v \<notin> targets ss" by simp_all
      with 2(1) [OF \<open>frames_of env h vs = Inr fs\<close> Inr run] show ?thesis by simp
    qed
  qed
next
  case (3 x cs ss env h)
  then show ?case by (auto split: option.splits sum.splits)
next
  case (4 vs e ss env h)
  then show ?case by (auto split: option.splits sum.splits)
next
  case (5 vs c a b ss env h)
  show ?case
  proof (cases "frames_of env h vs")
    case (Inl err)
    with 5 show ?thesis by simp
  next
    case (Inr fs)
    obtain env1 h1 r1 where br: "exec (if c fs then a else b) env h = (env1, h1, r1)"
      by (cases "exec (if c fs then a else b) env h") auto
    from 5(4) have nb: "v \<notin> targets (if c fs then a else b)" and ns: "v \<notin> targets ss"
      by simp_all
    from 5(1) [OF Inr br nb] have e1: "env1 v = env v" .
    show ?thesis
    proof (cases r1)
      case None
      with 5(3) Inr br have run: "exec ss env1 h1 = (env', h', r)" by simp
      from 5(2) [OF Inr br [symmetric] refl None run ns] e1 show ?thesis by simp
    next
      case (Some err)
      with 5(3) Inr br have "env' = env1" by simp
      with e1 show ?thesis by simp
    qed
  qed
qed

lemma script_writes_fresh: "writes_fresh {} (script y c)"
  by (simp add: script_def)

lemma script_targets:
  "targets (script y c) =
     {''filtered_exped'', ''filtered_members'', ''top_peaks'', ''top5'', ''successful_members'',
      ''yearly_summary'', ''trend_data'', ''everest_climbers''}"
  by (auto simp: script_def)


text \<open>
  C9. Whatever the selected year and country, and whether the run ends normally or with
  an exception: after the statements of the filters and of the five aggregations, each of
  the variables \<^verbatim>\<open>exped\<close>, \<^verbatim>\<open>members\<close>, \<^verbatim>\<open>peaks\<close>, \<^verbatim>\<open>refer\<close> and \<^verbatim>\<open>data_dict\<close> refers to the
  object it referred to before, and that object is the frame it was. The one statement
  that changes a frame in place, \<^verbatim>\<open>top_peaks.columns = [...]\<close>, changes a frame that the
  script has built itself.
\<close>

theorem script_leaves_tables:
  assumes "exec (script y c) env h = (env', h', r)"
    and "v \<in> {''exped'', ''members'', ''peaks'', ''refer'', ''data_dict''}"
    and "env v = Some a"
    and "a < length h"
  shows "env' v = Some a \<and> h' ! a = h ! a"
proof -
  from assms(2) have "v \<notin> targets (script y c)"
    unfolding script_targets by auto
  from exec_env [OF assms(1) this] assms(3) have bound: "env' v = Some a" by simp
  from exec_prefix [OF script_writes_fresh _ _ assms(1), of "length h"]
  have "take (length h) h' = h" by simp
  then have "h' ! a = h ! a"
    using assms(4) by (metis nth_take)
  with bound show ?thesis by simp
qed

theorem script_leaves_tables_witness:
  "snd (snd (exec (script (PyInt 1953) (PyStr ''India''))
     [''exped'' \<mapsto> 0, ''members'' \<mapsto> 1, ''peaks'' \<mapsto> 2, ''refer'' \<mapsto> 3, ''data_dict'' \<mapsto> 4]
     [\<lparr>columns = [''expid'', ''year'', ''success1''],
       rows = [[PyStr ''EVER53101'', PyInt 1953, PyStr ''success'']]\<rparr>,
      \<lparr>columns = [''peakid'', ''fname'', ''citizen'', ''msuccess''],
       rows = [[PyStr ''EVER'', PyStr ''Tenzing'', PyStr ''India'', PyBool True]]\<rparr>,
      \<lparr>columns = [''peakid'', ''pkname''], rows = [[PyStr ''EVER'', PyStr ''Everest'']]\<rparr>,
      \<lparr>columns = [''refid''], rows = []\<rparr>,
      \<lparr>columns = [''field''], rows = []\<rparr>])) = None
   \<and> length (fst (snd (exec (script (PyInt 1953) (PyStr ''India''))
     [''exped'' \<mapsto> 0, ''members'' \<mapsto> 1, ''peaks'' \<mapsto> 2, ''refer'' \<mapsto> 3, ''data_dict'' \<mapsto> 4]
     [\<lparr>columns = [''expid'', ''year'', ''success1''],
       rows = [[PyStr ''EVER53101'', PyInt 1953, PyStr ''success'']]\<rparr>,
      \<lparr>columns = [''peakid'', ''fname'', ''citizen'', ''msuccess''],
       rows = [[PyStr ''EVER'', PyStr ''Tenzing'', PyStr ''India'', PyBool True]]\<rparr>,
      \<lparr>columns = [''peakid'', ''pkname''], rows = [[PyStr ''EVER'', PyStr ''Everest'']]\<rparr>,
      \<lparr>columns = [''refid''], rows = []\<rparr>,
      \<lparr>columns = [''field''], rows = []\<rparr>]))) = 14
   \<and> fst (exec (script (PyInt 1953) (PyStr ''India''))
     [''exped'' \<mapsto> 0, ''members'' \<mapsto> 1, ''peaks'' \<mapsto> 2, ''refer'' \<mapsto> 3, ''data_dict'' \<mapsto> 4]
     [\<lparr>columns = [''expid'', ''year'', ''success1''],
       rows = [[PyStr ''EVER53101'', PyInt 1953, PyStr ''success'']]\<rparr>,
      \<lparr>columns = [''peakid'', ''fname'', ''citizen'', ''msuccess''],
       rows = [[PyStr ''EVER'', PyStr ''Tenzing'', PyStr ''India'', PyBool True]]\<rparr>,
      \<lparr>columns = [''peakid'', ''pkname''], rows = [[PyStr ''EVER'', PyStr ''Everest'']]\<rparr>,
      \<lparr>columns = [''refid''], rows = []\<rparr>,
      \<lparr>columns = [''field''], rows = []\<rparr>]) ''members'' = Some 1
   \<and> fst (snd (exec (script (PyInt 1953) (PyStr ''India''))
     [''exped'' \<mapsto> 0, ''members'' \<mapsto> 1, ''peaks'' \<mapsto> 2, ''refer'' \<mapsto> 3, ''data_dict'' \<mapsto> 4]
     [\<lparr>columns = [''expid'', ''year'', ''success1''],
       rows = [[PyStr ''EVER53101'', PyInt 1953, PyStr ''success'']]\<rparr>,
      \<lparr>columns = [''peakid'', ''fname'', ''citizen'', ''msuccess''],
       rows = [[PyStr ''EVER'', PyStr ''Tenzing'', PyStr ''India'', PyBool True]]\<rparr>,
      \<lparr>columns = [''peakid'', ''pkname''], rows = [[PyStr ''EVER'', PyStr ''Everest'']]\<rparr>,
      \<lparr>columns = [''refid''], rows = []\<rparr>,
      \<lparr>columns = [''field''], rows = []\<rparr>])) ! 1
       = \<lparr>columns = [''peakid'', ''fname'', ''citizen'', ''msuccess''],
          rows = [[PyStr ''EVER'', PyStr ''Tenzing'', PyStr ''India'', PyBool True]]\<rparr>
   \<and> fst (exec (script (PyInt 1953) (PyStr ''India''))
     [''exped'' \<mapsto> 0, ''members'' \<mapsto> 1, ''peaks'' \<mapsto> 2, ''refer'' \<mapsto> 3, ''data_dict'' \<mapsto> 4]
     [\<lparr>columns = [''expid'', ''year'', ''success1''],
       rows = [[PyStr ''EVER53101'', PyInt 1953, PyStr ''success'']]\<rparr>,
      \<lparr>columns = [''peakid'', ''fname'', ''citizen'', ''msuccess''],
       rows = [[PyStr ''EVER'', PyStr ''Tenzing'', PyStr ''India'', PyBool True]]\<rparr>,
      \<lparr>columns = [''peakid'', ''pkname''], rows = [[PyStr ''EVER'', PyStr ''Everest'']]\<rparr>,
      \<lparr>columns = [''refid''], rows = []\<rparr>,
      \<lparr>columns = [''field''], rows = []\<rparr>]) ''peaks'' = Some 2
   \<and> fst (snd (exec (script (PyInt 1953) (PyStr ''India''))
     [''exped'' \<mapsto> 0, ''members'' \<mapsto> 1, ''peaks'' \<mapsto> 2, ''refer'' \<mapsto> 3, ''data_dict'' \<mapsto> 4]
     [\<lparr>columns = [''expid'', ''year'', ''success1''],
       rows = [[PyStr ''EVER53101'', PyInt 1953, PyStr ''success'']]\<rparr>,
      \<lparr>columns = [''peakid'', ''fname'', ''citizen'', ''msuccess''],
       rows = [[PyStr ''EVER'', PyStr ''Tenzing'', PyStr ''India'', PyBool True]]\<rparr>,
      \<lparr>columns = [''peakid'', ''pkname''], rows = [[PyStr ''EVER'', PyStr ''Everest'']]\<rparr>,
      \<lparr>columns = [''refid''], rows = []\<rparr>,
      \<lparr>columns = [''field''], rows = []\<rparr>])) ! 2
       = \<lparr>columns = [''peakid'', ''pkname''], rows = [[PyStr ''EVER'', PyStr ''Everest'']]\<rparr>
   \<and> fst (exec (script (PyInt 1953) (PyStr ''India''))
     [''exped'' \<mapsto> 0, ''members'' \<mapsto> 1, ''peaks'' \<mapsto> 2, ''refer'' \<mapsto> 3, ''data_dict'' \<mapsto> 4]
     [\<lparr>columns = [''expid'', ''year'', ''success1''],
       rows = [[PyStr ''EVER53101'', PyInt 1953, PyStr ''success'']]\<rparr>,
      \<lparr>columns = [''peakid'', ''fname'', ''citizen'', ''msuccess''],
       rows = [[PyStr ''EVER'', PyStr ''Tenzing'', PyStr ''India'', PyBool True]]\<rparr>,
      \<lparr>columns = [''peakid'', ''pkname''], rows = [[PyStr ''EVER'', PyStr ''Everest'']]\<rparr>,
      \<lparr>columns = [''refid''], rows = []\<rparr>,
      \<lparr>columns = [''field''], rows = []\<rparr>]) ''top5'' = Some 9
   \<and> top5 \<lparr>columns = [''peakid'', ''fname'', ''citizen'', ''msuccess''],
             rows = [[PyStr ''EVER'', PyStr ''Tenzing'', PyStr ''India'', PyBool True]]\<rparr>
            \<lparr>columns = [''peakid'', ''pkname''], rows = [[PyStr ''EVER'', PyStr ''Everest'']]\<rparr>
       = Inr (Metric (fst (snd (exec (script (PyInt 1953) (PyStr ''India''))
     [''exped'' \<mapsto> 0, ''members'' \<mapsto> 1, ''peaks'' \<mapsto> 2, ''refer'' \<mapsto> 3, ''data_dict'' \<mapsto> 4]
     [\<lparr>columns = [''expid'', ''year'', ''success1''],
       rows = [[PyStr ''EVER53101'', PyInt 1953, PyStr ''success'']]\<rparr>,
      \<lparr>columns = [''peakid'', ''fname'', ''citizen'', ''msuccess''],
       rows = [[PyStr ''EVER'', PyStr ''Tenzing'', PyStr ''India'', PyBool True]]\<rparr>,
      \<lparr>columns = [''peakid'', ''pkname''], rows = [[PyStr ''EVER'', PyStr ''Everest'']]\<rparr>,
      \<lparr>columns = [''refid''], rows = []\<rparr>,
      \<lparr>columns = [''field''], rows = []\<rparr>])) ! 9))"
proof -
  let ?env = "[''exped'' \<mapsto> 0, ''members'' \<mapsto> 1, ''peaks'' \<mapsto> 2, ''refer'' \<mapsto> 3, ''data_dict'' \<mapsto> 4]"
  let ?h = "[\<lparr>columns = [''expid'', ''year'', ''success1''],
       rows = [[PyStr ''EVER53101'', PyInt 1953, PyStr ''success'']]\<rparr>,
      \<lparr>columns = [''peakid'', ''fname'', ''citizen'', ''msuccess''],
       rows = [[PyStr ''EVER'', PyStr ''Tenzing'', PyStr ''India'', PyBool True]]\<rparr>,
      \<lparr>columns = [''peakid'', ''pkname''], rows = [[PyStr ''EVER'', PyStr ''Everest'']]\<rparr>,
      \<lparr>columns = [''refid''], rows = []\<rparr>,
      \<lparr>columns = [''field''], rows = []\<rparr>]"
  obtain env' h' r where run: "exec (script (PyInt 1953) (PyStr ''India'')) ?env ?h = (env', h', r)"
    by (cases "exec (script (PyInt 1953) (PyStr ''India'')) ?env ?h") auto
  have fin: "snd (snd (exec (script (PyInt 1953) (PyStr ''India'')) ?env ?h)) = None"
    by code_simp
  have len: "length (fst (snd (exec (script (PyInt 1953) (PyStr ''India'')) ?env ?h))) = 14"
    by code_simp
  have t5: "fst (exec (script (PyInt 1953) (PyStr ''India'')) ?env ?h) ''top5'' = Some 9"
    by code_simp
  have same: "top5 (?h ! 1) (?h ! 2)
      = Inr (Metric (fst (snd (exec (script (PyInt 1953) (PyStr ''India'')) ?env ?h)) ! 9))"
    by code_simp
  have m: "env' ''members'' = Some 1 \<and> h' ! 1 = ?h ! 1"
    by (rule script_leaves_tables [OF run]) simp_all
  have p: "env' ''peaks'' = Some 2 \<and> h' ! 2 = ?h ! 2"
    by (rule script_leaves_tables [OF run]) simp_all
  from run fin len m p t5 same show ?thesis by simp
qed

end
